theory Spec2Isabelle
  imports Main
begin

section \<open>Request data\<close>

text \<open>
  The values a request carries: the JSON body parsed by the framework, and query
  values. A JavaScript string is a sequence of UTF-16 code units and \<open>length\<close> counts
  them; a \<open>char\<close> stands for one code unit below U+0100. Numbers are the integral ones:
  the code only ever tests a number for being zero.
\<close>

datatype json =
    JNull
  | JBool bool
  | JNum int
  | JStr string
  | JArr "json list"
  | JObj "(string \<times> json) list"

text \<open>An object: a key that is not bound reads as \<open>undefined\<close>.\<close>

type_synonym obj = "string \<rightharpoonup> json"

text \<open>JavaScript truthiness, as used by \<open>!title\<close> and \<open>status || 'pending'\<close>.\<close>

fun truthy :: "json option \<Rightarrow> bool" where
  "truthy None = False"
| "truthy (Some JNull) = False"
| "truthy (Some (JBool b)) = b"
| "truthy (Some (JNum n)) = (n \<noteq> 0)"
| "truthy (Some (JStr s)) = (s \<noteq> [])"
| "truthy (Some (JArr xs)) = True"
| "truthy (Some (JObj kvs)) = True"

text \<open>\<open>String.prototype.trim\<close>: white space and line terminators below U+0100.\<close>

definition is_space :: "char \<Rightarrow> bool" where
  "is_space c \<longleftrightarrow>
     c \<in> set [CHR 0x09, CHR 0x0A, CHR 0x0B, CHR 0x0C, CHR 0x0D, CHR 0x20, CHR 0xA0]"

definition trim :: "string \<Rightarrow> string" where
  "trim s = rev (dropWhile is_space (rev (dropWhile is_space s)))"

section \<open>Errors\<close>

text \<open>
  One issue of a failed schema parse: the issue code, the path, and the message where the
  schema gives one.
\<close>

datatype zod_issue =
    invalid_type string
  | too_small string string
  | too_big string string
  | invalid_enum_value string

text \<open>
  What can be thrown: \<open>new Error(msg)\<close> by the model functions, a \<open>ZodError\<close> by
  \<open>todoSchema.parse\<close>, a \<open>TypeError\<close> by calling \<open>trim\<close> on a value that has none, and a
  \<open>ValidationError\<close> by the document schema.
\<close>

datatype error =
    Error string
  | ZodError "zod_issue list"
  | TypeError string
  | ValidationError "string list"

fun issue_text :: "zod_issue \<Rightarrow> string" where
  "issue_text (invalid_type p) = p @ '': invalid_type''"
| "issue_text (too_small p m) = p @ '': '' @ m"
| "issue_text (too_big p m) = p @ '': '' @ m"
| "issue_text (invalid_enum_value p) = p @ '': invalid_enum_value''"

text \<open>
  \<open>error.message\<close>. The text of a \<open>ZodError\<close> is the library's rendering of the issue list
  as a JSON array, and the text of a \<open>ValidationError\<close> starts with the model name; both
  are given here in outline.
\<close>

fun error_message :: "error \<Rightarrow> string" where
  "error_message (Error m) = m"
| "error_message (ZodError issues) = ''['' @ concat (map issue_text issues) @ '']''"
| "error_message (TypeError m) = m"
| "error_message (ValidationError ps) = ''Todo validation failed: '' @ concat ps"

section \<open>Validation layer\<close>

definition todoStatusSchema :: "string list" where
  "todoStatusSchema = [''pending'', ''in_progress'', ''completed'']"

text \<open>The output of a successful parse; with \<open>partial\<close> every field may be absent.\<close>

record todo_data =
  v_title :: "string option"
  v_description :: "string option"
  v_status :: "string option"
  v_user :: "string option"

text \<open>
  \<open>title: z.string().min(1, 'Title is required').max(255, ...)\<close>; \<open>optional\<close> says whether
  \<open>undefined\<close> is accepted.
\<close>

definition title_issues :: "bool \<Rightarrow> json option \<Rightarrow> zod_issue list" where
  "title_issues optional v =
     (case v of
        None \<Rightarrow> if optional then [] else [invalid_type ''title'']
      | Some (JStr s) \<Rightarrow>
          (if length s < 1 then [too_small ''title'' ''Title is required'']
           else if length s > 255 then [too_big ''title'' ''Title must be 255 characters or less'']
           else [])
      | Some _ \<Rightarrow> [invalid_type ''title''])"

text \<open>\<open>description: z.string().max(1000, ...).optional()\<close>\<close>

definition description_issues :: "json option \<Rightarrow> zod_issue list" where
  "description_issues v =
     (case v of
        None \<Rightarrow> []
      | Some (JStr s) \<Rightarrow>
          (if length s > 1000
           then [too_big ''description'' ''Description must be 1000 characters or less'']
           else [])
      | Some _ \<Rightarrow> [invalid_type ''description''])"

text \<open>\<open>status: todoStatusSchema\<close>\<close>

definition status_issues :: "bool \<Rightarrow> json option \<Rightarrow> zod_issue list" where
  "status_issues optional v =
     (case v of
        None \<Rightarrow> if optional then [] else [invalid_type ''status'']
      | Some (JStr s) \<Rightarrow>
          (if s \<in> set todoStatusSchema then [] else [invalid_enum_value ''status''])
      | Some _ \<Rightarrow> [invalid_type ''status''])"

text \<open>\<open>user: z.string().min(1, 'User is required')\<close>\<close>

definition user_issues :: "bool \<Rightarrow> json option \<Rightarrow> zod_issue list" where
  "user_issues optional v =
     (case v of
        None \<Rightarrow> if optional then [] else [invalid_type ''user'']
      | Some (JStr s) \<Rightarrow>
          (if length s < 1 then [too_small ''user'' ''User is required''] else [])
      | Some _ \<Rightarrow> [invalid_type ''user''])"

text \<open>
  \<open>createdAt: z.date().optional()\<close>, and the same for \<open>updatedAt\<close>: no value of request
  data is a \<open>Date\<close>, so only \<open>undefined\<close> passes.
\<close>

definition date_issues :: "string \<Rightarrow> json option \<Rightarrow> zod_issue list" where
  "date_issues p v = (case v of None \<Rightarrow> [] | Some _ \<Rightarrow> [invalid_type p])"

fun str_of :: "json option \<Rightarrow> string option" where
  "str_of (Some (JStr s)) = Some s"
| "str_of _ = None"

text \<open>
  \<open>todoSchema.parse\<close> (\<open>partial = False\<close>) and \<open>todoSchema.partial().parse\<close>
  (\<open>partial = True\<close>): every field is checked, keys the schema does not name are dropped,
  and the parse throws when there is an issue.
\<close>

definition todoSchema_parse :: "bool \<Rightarrow> obj \<Rightarrow> error + todo_data" where
  "todoSchema_parse partial input =
     (let issues =
            title_issues partial (input ''title'') @
            description_issues (input ''description'') @
            status_issues partial (input ''status'') @
            user_issues partial (input ''user'') @
            date_issues ''createdAt'' (input ''createdAt'') @
            date_issues ''updatedAt'' (input ''updatedAt'')
      in if issues \<noteq> [] then Inl (ZodError issues)
         else Inr \<lparr> v_title = str_of (input ''title''),
                    v_description = str_of (input ''description''),
                    v_status = str_of (input ''status''),
                    v_user = str_of (input ''user'') \<rparr>)"

section \<open>Record schema and document store\<close>

text \<open>
  A persisted item. Identifiers are object ids, taken as numbers; time stamps are
  milliseconds.
\<close>

record todo =
  todo_id :: nat
  title :: string
  description :: "string option"
  status :: string
  user :: string
  createdAt :: nat
  updatedAt :: nat

text \<open>
  The collection in insertion order, and the next identifier the store hands out.
\<close>

record store =
  docs :: "todo list"
  next_id :: nat

text \<open>The setters of the document schema: \<open>trim: true\<close> on \<open>title\<close> and \<open>description\<close>.\<close>

definition apply_setters :: "todo_data \<Rightarrow> todo_data" where
  "apply_setters v =
     v\<lparr> v_title := map_option trim (v_title v),
        v_description := map_option trim (v_description v) \<rparr>"

text \<open>
  The validators of the document schema on the paths that are set: \<open>required\<close> and
  \<open>maxlength: 255\<close> on \<open>title\<close>, \<open>maxlength: 1000\<close> on \<open>description\<close>, \<open>enum\<close> and \<open>required\<close>
  on \<open>status\<close>, \<open>required\<close> on \<open>user\<close>. A required string must not be empty.
\<close>

definition path_errors :: "todo_data \<Rightarrow> string list" where
  "path_errors v =
     (case v_title v of
        None \<Rightarrow> []
      | Some t \<Rightarrow> (if t = [] then [''title: required'']
                  else if length t > 255 then [''title: maxlength''] else [])) @
     (case v_description v of
        None \<Rightarrow> []
      | Some d \<Rightarrow> (if length d > 1000 then [''description: maxlength''] else [])) @
     (case v_status v of
        None \<Rightarrow> []
      | Some st \<Rightarrow> (if st = [] then [''status: required'']
                   else if st \<notin> set [''pending'', ''in_progress'', ''completed'']
                   then [''status: enum''] else [])) @
     (case v_user v of
        None \<Rightarrow> []
      | Some u \<Rightarrow> (if u = [] then [''user: required''] else []))"

text \<open>The required paths that a new document does not set; \<open>status\<close> has a default.\<close>

definition missing_errors :: "todo_data \<Rightarrow> string list" where
  "missing_errors v =
     (if v_title v = None then [''title: required''] else []) @
     (if v_user v = None then [''user: required''] else [])"

text \<open>
  \<open>new Todo(validatedData)\<close> followed by \<open>save()\<close>: setters, defaults, validation, then the
  insert with a fresh identifier and both time stamps set to the time of the save.
\<close>

definition Todo_save :: "nat \<Rightarrow> todo_data \<Rightarrow> store \<Rightarrow> error + todo \<times> store" where
  "Todo_save now v0 s =
     (let v = apply_setters v0;
          errs = path_errors v @ missing_errors v
      in if errs \<noteq> [] then Inl (ValidationError errs)
         else
           (case (v_title v, v_user v) of
              (Some t, Some u) \<Rightarrow>
                (let d = \<lparr> todo_id = next_id s,
                           title = t,
                           description = v_description v,
                           status = (case v_status v of None \<Rightarrow> ''pending'' | Some st \<Rightarrow> st),
                           user = u,
                           createdAt = now,
                           updatedAt = now \<rparr>
                 in Inr (d, s\<lparr> docs := docs s @ [d], next_id := Suc (next_id s) \<rparr>))
            | _ \<Rightarrow> Inl (ValidationError errs)))"

text \<open>The filter \<open>{_id: todoId, user: req.user.id}\<close>.\<close>

definition matches :: "nat \<Rightarrow> string \<Rightarrow> todo \<Rightarrow> bool" where
  "matches i uid d \<longleftrightarrow> todo_id d = i \<and> user d = uid"

text \<open>\<open>Todo.findOne(filter)\<close>: the first document that matches, or \<open>null\<close>.\<close>

definition Todo_findOne :: "nat \<Rightarrow> string \<Rightarrow> store \<Rightarrow> todo option" where
  "Todo_findOne i uid s = find (matches i uid) (docs s)"

text \<open>The fields an update sets, on one document.\<close>

definition apply_update :: "todo_data \<Rightarrow> nat \<Rightarrow> todo \<Rightarrow> todo" where
  "apply_update v now d =
     d\<lparr> title := (case v_title v of None \<Rightarrow> title d | Some t \<Rightarrow> t),
        description := (case v_description v of None \<Rightarrow> description d | Some x \<Rightarrow> Some x),
        status := (case v_status v of None \<Rightarrow> status d | Some st \<Rightarrow> st),
        user := (case v_user v of None \<Rightarrow> user d | Some u \<Rightarrow> u),
        updatedAt := now \<rparr>"

fun update_first :: "('a \<Rightarrow> bool) \<Rightarrow> ('a \<Rightarrow> 'a) \<Rightarrow> 'a list \<Rightarrow> 'a list" where
  "update_first P f [] = []"
| "update_first P f (x # xs) = (if P x then f x # xs else x # update_first P f xs)"

text \<open>
  \<open>Todo.findOneAndUpdate(filter, {...fields, updatedAt: new Date()}, {new: true,
  runValidators: true})\<close>: setters and validators run on the update first; then the
  first matching document is changed and returned as it is after the change, or \<open>null\<close>
  when none matches. A field that is \<open>undefined\<close> in the update is left alone.
\<close>

definition Todo_findOneAndUpdate ::
  "nat \<Rightarrow> string \<Rightarrow> todo_data \<Rightarrow> nat \<Rightarrow> store \<Rightarrow> error + todo option \<times> store" where
  "Todo_findOneAndUpdate i uid v0 now s =
     (let v = apply_setters v0; errs = path_errors v
      in if errs \<noteq> [] then Inl (ValidationError errs)
         else
           (case find (matches i uid) (docs s) of
              None \<Rightarrow> Inr (None, s)
            | Some d \<Rightarrow>
                Inr (Some (apply_update v now d),
                     s\<lparr> docs := update_first (matches i uid) (apply_update v now) (docs s) \<rparr>)))"

fun remove_first :: "('a \<Rightarrow> bool) \<Rightarrow> 'a list \<Rightarrow> 'a list" where
  "remove_first P [] = []"
| "remove_first P (x # xs) = (if P x then xs else x # remove_first P xs)"

text \<open>\<open>Todo.deleteOne(filter)\<close>: the new store and \<open>deletedCount\<close>.\<close>

definition Todo_deleteOne :: "nat \<Rightarrow> string \<Rightarrow> store \<Rightarrow> nat \<times> store" where
  "Todo_deleteOne i uid s =
     (if \<exists>d \<in> set (docs s). matches i uid d
      then (1, s\<lparr> docs := remove_first (matches i uid) (docs s) \<rparr>)
      else (0, s))"

text \<open>
  \<open>sort({createdAt: -1})\<close>: newest first; items created at the same time keep the order
  of the collection.
\<close>

fun insert_desc :: "todo \<Rightarrow> todo list \<Rightarrow> todo list" where
  "insert_desc d [] = [d]"
| "insert_desc d (x # xs) =
     (if createdAt x > createdAt d then x # insert_desc d xs else d # x # xs)"

definition sort_desc :: "todo list \<Rightarrow> todo list" where
  "sort_desc xs = foldr insert_desc xs []"

text \<open>\<open>limit(n)\<close> of the store: a limit of 0 is no limit.\<close>

definition limit_docs :: "nat \<Rightarrow> todo list \<Rightarrow> todo list" where
  "limit_docs n xs = (if n = 0 then xs else take n xs)"

text \<open>
  \<open>Todo.find(filter).sort({createdAt: -1}).limit(l).skip(k)\<close>: the query is built first
  and runs as filter, sort, skip, limit, whatever the order of the calls.
\<close>

definition Todo_find :: "(todo \<Rightarrow> bool) \<Rightarrow> nat \<Rightarrow> nat \<Rightarrow> store \<Rightarrow> todo list" where
  "Todo_find flt l k s = limit_docs l (drop k (sort_desc (filter flt (docs s))))"

section \<open>Data access layer\<close>

text \<open>
  A request: the identity the authentication middleware attached (\<open>req.user.id\<close>, absent
  when there is no user), the parsed body, the \<open>:id\<close> route parameter, and the query. The
  \<open>limit\<close> and \<open>skip\<close> of a query are given as \<open>parseInt\<close> reads them from the numeral of a
  natural number.
\<close>

record query =
  q_status :: "json option"
  q_limit :: "nat option"
  q_skip :: "nat option"

record request =
  user_id :: "string option"
  body :: obj
  params_id :: nat
  req_query :: query

text \<open>\<open>req?.user?.id\<close> when it is truthy.\<close>

definition caller :: "request \<Rightarrow> string option" where
  "caller req = (case user_id req of None \<Rightarrow> None | Some u \<Rightarrow> if u = [] then None else Some u)"

text \<open>\<open>v || d\<close>\<close>

definition or_else :: "json option \<Rightarrow> json \<Rightarrow> json" where
  "or_else v d = (case v of None \<Rightarrow> d | Some x \<Rightarrow> if truthy v then x else d)"

definition createTodo :: "nat \<Rightarrow> request \<Rightarrow> obj \<Rightarrow> store \<Rightarrow> error + todo \<times> store" where
  "createTodo now req todoData s =
     (case caller req of
        None \<Rightarrow> Inl (Error ''User not authenticated'')
      | Some uid \<Rightarrow>
          (case todoSchema_parse False
                  (todoData(''user'' \<mapsto> JStr uid,
                            ''status'' \<mapsto> or_else (todoData ''status'') (JStr ''pending''))) of
             Inl e \<Rightarrow> Inl e
           | Inr validatedData \<Rightarrow> Todo_save now validatedData s))"

text \<open>
  The status filter is added only for a truthy value that is one of the three strings.
\<close>

definition status_filter :: "json option \<Rightarrow> string option" where
  "status_filter st =
     (case st of
        Some (JStr x) \<Rightarrow>
          if truthy st \<and> x \<in> set [''pending'', ''in_progress'', ''completed'']
          then Some x else None
      | _ \<Rightarrow> None)"

definition getTodos :: "request \<Rightarrow> query \<Rightarrow> store \<Rightarrow> error + todo list" where
  "getTodos req q s =
     (case caller req of
        None \<Rightarrow> Inl (Error ''User not authenticated'')
      | Some uid \<Rightarrow>
          (let limit = (case q_limit q of None \<Rightarrow> 50 | Some l \<Rightarrow> l);
               skip = (case q_skip q of None \<Rightarrow> 0 | Some k \<Rightarrow> k);
               flt = (\<lambda>d. user d = uid \<and>
                           (case status_filter (q_status q) of
                              None \<Rightarrow> True
                            | Some x \<Rightarrow> status d = x))
           in Inr (Todo_find flt limit skip s)))"

definition getTodo :: "request \<Rightarrow> nat \<Rightarrow> store \<Rightarrow> error + todo" where
  "getTodo req todoId s =
     (case caller req of
        None \<Rightarrow> Inl (Error ''User not authenticated'')
      | Some uid \<Rightarrow>
          (case Todo_findOne todoId uid s of
             None \<Rightarrow> Inl (Error ''Todo not found'')
           | Some d \<Rightarrow> Inr d))"

definition updateTodo ::
  "nat \<Rightarrow> request \<Rightarrow> nat \<Rightarrow> obj \<Rightarrow> store \<Rightarrow> error + todo \<times> store" where
  "updateTodo now req todoId updateData s =
     (case caller req of
        None \<Rightarrow> Inl (Error ''User not authenticated'')
      | Some uid \<Rightarrow>
          (case todoSchema_parse True (updateData(''user'' \<mapsto> JStr uid)) of
             Inl e \<Rightarrow> Inl e
           | Inr validatedData \<Rightarrow>
               (case Todo_findOneAndUpdate todoId uid validatedData now s of
                  Inl e \<Rightarrow> Inl e
                | Inr (None, s') \<Rightarrow> Inl (Error ''Todo not found'')
                | Inr (Some d, s') \<Rightarrow> Inr (d, s'))))"

definition deleteTodo :: "request \<Rightarrow> nat \<Rightarrow> store \<Rightarrow> error + bool \<times> store" where
  "deleteTodo req todoId s =
     (case caller req of
        None \<Rightarrow> Inl (Error ''User not authenticated'')
      | Some uid \<Rightarrow>
          (case Todo_deleteOne todoId uid s of
             (deletedCount, s') \<Rightarrow>
               if deletedCount = 0 then Inl (Error ''Todo not found'') else Inr (True, s')))"

text \<open>The \<open>switch\<close> of the toggle.\<close>

definition newStatus :: "string \<Rightarrow> string" where
  "newStatus st =
     (if st = ''pending'' then ''in_progress''
      else if st = ''in_progress'' then ''completed''
      else if st = ''completed'' then ''pending''
      else ''pending'')"

text \<open>
  The result is what the second store call returns, which is \<open>null\<close> when that call
  matches nothing.
\<close>

definition toggleTodoStatus ::
  "nat \<Rightarrow> request \<Rightarrow> nat \<Rightarrow> store \<Rightarrow> error + todo option \<times> store" where
  "toggleTodoStatus now req todoId s =
     (case caller req of
        None \<Rightarrow> Inl (Error ''User not authenticated'')
      | Some uid \<Rightarrow>
          (case Todo_findOne todoId uid s of
             None \<Rightarrow> Inl (Error ''Todo not found'')
           | Some d \<Rightarrow>
               Todo_findOneAndUpdate todoId uid
                 \<lparr> v_title = None, v_description = None,
                   v_status = Some (newStatus (status d)), v_user = None \<rparr> now s))"

section \<open>Request handlers\<close>

datatype payload = Item todo | Items "todo list"

record response =
  code :: nat
  success :: bool
  data :: "payload option"
  message :: "string option"
  count :: "nat option"

definition failure :: "nat \<Rightarrow> string \<Rightarrow> response" where
  "failure c m = \<lparr> code = c, success = False, data = None, message = Some m, count = None \<rparr>"

text \<open>\<open>error.message || fallback\<close>\<close>

definition message_or :: "error \<Rightarrow> string \<Rightarrow> string" where
  "message_or e fallback = (if error_message e = [] then fallback else error_message e)"

text \<open>\<open>error.message === 'Todo not found' ? 404 : 500\<close>\<close>

definition statusCode :: "error \<Rightarrow> nat" where
  "statusCode e = (if error_message e = ''Todo not found'' then 404 else 500)"

definition getTodosController :: "request \<Rightarrow> store \<Rightarrow> response" where
  "getTodosController req s =
     (case getTodos req (req_query req) s of
        Inr todos \<Rightarrow>
          \<lparr> code = 200, success = True, data = Some (Items todos), message = None,
            count = Some (length todos) \<rparr>
      | Inl e \<Rightarrow> failure 500 (message_or e ''Failed to retrieve todos''))"

definition getTodoController :: "request \<Rightarrow> store \<Rightarrow> response" where
  "getTodoController req s =
     (case getTodo req (params_id req) s of
        Inr d \<Rightarrow>
          \<lparr> code = 200, success = True, data = Some (Item d), message = None, count = None \<rparr>
      | Inl e \<Rightarrow> failure (statusCode e) (message_or e ''Failed to retrieve todo''))"

text \<open>
  \<open>description?.trim()\<close>: \<open>undefined\<close> for \<open>undefined\<close> and \<open>null\<close>, the trimmed string for a
  string, and a \<open>TypeError\<close> for any other value, which has no \<open>trim\<close>.
\<close>

fun opt_trim :: "json option \<Rightarrow> error + json option" where
  "opt_trim None = Inr None"
| "opt_trim (Some JNull) = Inr None"
| "opt_trim (Some (JStr d)) = Inr (Some (JStr (trim d)))"
| "opt_trim (Some v) = Inl (TypeError ''description?.trim is not a function'')"

text \<open>
  The handler answers 400 itself for a title that is falsy or blank, and 500 for
  whatever is thrown afterwards.
\<close>

definition createTodoController :: "nat \<Rightarrow> request \<Rightarrow> store \<Rightarrow> response \<times> store" where
  "createTodoController now req s =
     (let title = body req ''title'';
          description = body req ''description'';
          status = body req ''status'';
          caught = (\<lambda>e. (failure 500 (message_or e ''Failed to create todo''), s))
      in if \<not> truthy title then (failure 400 ''Title is required'', s)
         else
           (case title of
              Some (JStr t) \<Rightarrow>
                if length (trim t) = 0 then (failure 400 ''Title is required'', s)
                else
                  (case opt_trim description of
                     Inl e \<Rightarrow> caught e
                   | Inr trimmed \<Rightarrow>
                       (let todoData =
                              (Map.empty(''title'' \<mapsto> JStr (trim t),
                                         ''status'' \<mapsto> or_else status (JStr ''pending'')))
                              (''description'' := trimmed)
                        in case createTodo now req todoData s of
                             Inl e \<Rightarrow> caught e
                           | Inr (d, s') \<Rightarrow>
                               (\<lparr> code = 201, success = True, data = Some (Item d),
                                  message = Some ''Todo created successfully'',
                                  count = None \<rparr>, s')))
            | _ \<Rightarrow> caught (TypeError ''title.trim is not a function'')))"

text \<open>
  The three blocks that fill \<open>updateData\<close>: each either goes on with the object, answers
  the request itself, or throws.
\<close>

datatype 'a step = Next 'a | Return response | Throw error

definition update_title :: "json option \<Rightarrow> obj \<Rightarrow> obj step" where
  "update_title v updateData =
     (if v \<noteq> None then
        (if \<not> truthy v then Return (failure 400 ''Title cannot be empty'')
         else
           (case v of
              Some (JStr t) \<Rightarrow>
                if length (trim t) = 0 then Return (failure 400 ''Title cannot be empty'')
                else Next (updateData(''title'' \<mapsto> JStr (trim t)))
            | _ \<Rightarrow> Throw (TypeError ''title.trim is not a function'')))
      else Next updateData)"

definition update_description :: "json option \<Rightarrow> obj \<Rightarrow> obj step" where
  "update_description v updateData =
     (if v \<noteq> None then
        (case opt_trim v of
           Inl e \<Rightarrow> Throw e
         | Inr trimmed \<Rightarrow> Next (updateData(''description'' := trimmed)))
      else Next updateData)"

definition update_status :: "json option \<Rightarrow> obj \<Rightarrow> obj step" where
  "update_status v updateData =
     (if v \<noteq> None then
        (if v \<notin> set (map (Some \<circ> JStr) [''pending'', ''in_progress'', ''completed''])
         then Return (failure 400
                ''Invalid status. Must be one of: pending, in_progress, completed'')
         else Next (updateData(''status'' := v)))
      else Next updateData)"

definition updateTodoController :: "nat \<Rightarrow> request \<Rightarrow> store \<Rightarrow> response \<times> store" where
  "updateTodoController now req s =
     (let caught = (\<lambda>e. (failure (statusCode e) (message_or e ''Failed to update todo''), s))
      in case update_title (body req ''title'') Map.empty of
           Return r \<Rightarrow> (r, s)
         | Throw e \<Rightarrow> caught e
         | Next u1 \<Rightarrow>
             (case update_description (body req ''description'') u1 of
                Return r \<Rightarrow> (r, s)
              | Throw e \<Rightarrow> caught e
              | Next u2 \<Rightarrow>
                  (case update_status (body req ''status'') u2 of
                     Return r \<Rightarrow> (r, s)
                   | Throw e \<Rightarrow> caught e
                   | Next updateData \<Rightarrow>
                       (case updateTodo now req (params_id req) updateData s of
                          Inl e \<Rightarrow> caught e
                        | Inr (d, s') \<Rightarrow>
                            (\<lparr> code = 200, success = True, data = Some (Item d),
                               message = Some ''Todo updated successfully'',
                               count = None \<rparr>, s')))))"

definition deleteTodoController :: "request \<Rightarrow> store \<Rightarrow> response \<times> store" where
  "deleteTodoController req s =
     (case deleteTodo req (params_id req) s of
        Inl e \<Rightarrow> (failure (statusCode e) (message_or e ''Failed to delete todo''), s)
      | Inr (ok, s') \<Rightarrow>
          (\<lparr> code = 200, success = True, data = None,
             message = Some ''Todo deleted successfully'', count = None \<rparr>, s'))"

text \<open>Reading \<open>todo.status\<close> of a \<open>null\<close> result throws inside the \<open>try\<close>.\<close>

definition toggleTodoStatusController :: "nat \<Rightarrow> request \<Rightarrow> store \<Rightarrow> response \<times> store" where
  "toggleTodoStatusController now req s =
     (let caught = (\<lambda>e s'. (failure (statusCode e)
                               (message_or e ''Failed to toggle todo status''), s'))
      in case toggleTodoStatus now req (params_id req) s of
           Inl e \<Rightarrow> caught e s
         | Inr (None, s') \<Rightarrow>
             caught (TypeError ''Cannot read properties of null (reading 'status')'') s'
         | Inr (Some d, s') \<Rightarrow>
             (\<lparr> code = 200, success = True, data = Some (Item d),
                message = Some (''Todo status changed to '' @ status d),
                count = None \<rparr>, s'))"

text \<open>The success envelope of a create, with status code 201.\<close>

definition created :: "todo \<Rightarrow> response" where
  "created d = \<lparr> code = 201, success = True, data = Some (Item d),
                 message = Some ''Todo created successfully'', count = None \<rparr>"

section \<open>Payloads and operation sequences\<close>

text \<open>
  The constraints of the data model, read off a request body: the title is missing when
  it is falsy or blank, and the lengths are those after trimming.
\<close>

definition title_missing :: "obj \<Rightarrow> bool" where
  "title_missing b = (case b ''title'' of Some (JStr t) \<Rightarrow> trim t = [] | v \<Rightarrow> \<not> truthy v)"

definition title_too_long :: "obj \<Rightarrow> bool" where
  "title_too_long b = (case b ''title'' of Some (JStr t) \<Rightarrow> 255 < length (trim t) | _ \<Rightarrow> False)"

definition description_too_long :: "obj \<Rightarrow> bool" where
  "description_too_long b =
     (case b ''description'' of Some (JStr x) \<Rightarrow> 1000 < length (trim x) | _ \<Rightarrow> False)"

text \<open>A description that is absent, \<open>null\<close>, or a text of at most 1000 after trimming.\<close>

definition description_ok :: "obj \<Rightarrow> bool" where
  "description_ok b =
     (case b ''description'' of
        None \<Rightarrow> True
      | Some JNull \<Rightarrow> True
      | Some (JStr x) \<Rightarrow> length (trim x) \<le> 1000
      | Some _ \<Rightarrow> False)"

text \<open>A status that is falsy (and so defaulted) or one of the three values.\<close>

definition status_ok :: "obj \<Rightarrow> bool" where
  "status_ok b =
     (\<not> truthy (b ''status'') \<or>
      (case b ''status'' of Some (JStr st) \<Rightarrow> st \<in> set todoStatusSchema | _ \<Rightarrow> False))"

text \<open>
  The body of an update that gets past the handler's checks and the partial schema: each
  field is absent or satisfies its constraint.
\<close>

definition update_payload_ok :: "obj \<Rightarrow> bool" where
  "update_payload_ok b \<longleftrightarrow>
     (case b ''title'' of
        None \<Rightarrow> True
      | Some (JStr t) \<Rightarrow> trim t \<noteq> [] \<and> length (trim t) \<le> 255
      | Some _ \<Rightarrow> False) \<and>
     description_ok b \<and>
     (case b ''status'' of
        None \<Rightarrow> True
      | Some (JStr st) \<Rightarrow> st \<in> set todoStatusSchema
      | Some _ \<Rightarrow> False)"

text \<open>
  The operations of the data access layer that write, with their arguments, and the
  store after one of them: an operation that throws leaves the store as it was.
\<close>

datatype operation =
    Create nat request obj
  | Update nat request nat obj
  | Toggle nat request nat
  | Delete request nat

fun apply_operation :: "operation \<Rightarrow> store \<Rightarrow> store" where
  "apply_operation (Create now req todoData) s =
     (case createTodo now req todoData s of Inl e \<Rightarrow> s | Inr (d, s') \<Rightarrow> s')"
| "apply_operation (Update now req todoId updateData) s =
     (case updateTodo now req todoId updateData s of Inl e \<Rightarrow> s | Inr (d, s') \<Rightarrow> s')"
| "apply_operation (Toggle now req todoId) s =
     (case toggleTodoStatus now req todoId s of Inl e \<Rightarrow> s | Inr (d, s') \<Rightarrow> s')"
| "apply_operation (Delete req todoId) s =
     (case deleteTodo req todoId s of Inl e \<Rightarrow> s | Inr (ok, s') \<Rightarrow> s')"

fun run :: "operation list \<Rightarrow> store \<Rightarrow> store" where
  "run [] s = s"
| "run (x # xs) s = run xs (apply_operation x s)"

text \<open>Every persisted status is one of the three values.\<close>

definition statuses_valid :: "store \<Rightarrow> bool" where
  "statuses_valid s \<longleftrightarrow> (\<forall>d \<in> set (docs s). status d \<in> set todoStatusSchema)"

text \<open>Newest first.\<close>

definition newest_first :: "todo list \<Rightarrow> bool" where
  "newest_first xs \<longleftrightarrow> sorted_wrt (\<lambda>a b. createdAt a \<ge> createdAt b) xs"

text \<open>An item with a given id, owner, status and time of creation.\<close>

definition item_at :: "nat \<Rightarrow> string \<Rightarrow> string \<Rightarrow> nat \<Rightarrow> todo" where
  "item_at i uid st t =
     \<lparr> todo_id = i, title = ''task'', description = None, status = st, user = uid,
       createdAt = t, updatedAt = t \<rparr>"

section \<open>String trimming\<close>

lemma dropWhile_fixed: "xs = [] \<or> \<not> P (hd xs) \<Longrightarrow> dropWhile P xs = xs"
  by (cases xs) auto

lemma rev_dropWhile_split: "xs = rev (dropWhile P (rev xs)) @ rev (takeWhile P (rev xs))"
proof -
  have "rev (rev xs) = rev (takeWhile P (rev xs) @ dropWhile P (rev xs))"
    by (simp only: takeWhile_dropWhile_id)
  then show ?thesis
    by (simp only: rev_rev_ident rev_append)
qed

lemma trim_hd:
  assumes "trim s \<noteq> []"
  shows "\<not> is_space (hd (trim s))"
proof -
  define u where "u = dropWhile is_space s"
  have split: "u = trim s @ rev (takeWhile is_space (rev u))"
    unfolding trim_def u_def by (rule rev_dropWhile_split)
  from split assms have "u \<noteq> []"
    by (cases u) simp_all
  moreover from split assms have "hd u = hd (trim s)"
    by (metis hd_append2)
  ultimately show ?thesis
    unfolding u_def using hd_dropWhile [of is_space s] by simp
qed

lemma trim_idem: "trim (trim s) = trim s"
proof -
  define q where "q = dropWhile is_space (rev (dropWhile is_space s))"
  have t: "trim s = rev q"
    by (simp only: trim_def q_def)
  have "dropWhile is_space (trim s) = trim s"
    using trim_hd [of s] by (intro dropWhile_fixed) blast
  then have "trim (trim s) = rev (dropWhile is_space (rev (trim s)))"
    by (simp only: trim_def [of "trim s"])
  also have "rev (trim s) = q"
    by (simp only: t rev_rev_ident)
  also have "dropWhile is_space q = q"
    unfolding q_def by (rule dropWhile_idem)
  finally show ?thesis
    by (simp only: t)
qed

lemma length_trim: "length (trim s) \<le> length s"
proof -
  have "length (trim s) = length (dropWhile is_space (rev (dropWhile is_space s)))"
    by (simp add: trim_def)
  also have "\<dots> \<le> length (rev (dropWhile is_space s))"
    by (rule length_dropWhile_le)
  also have "\<dots> = length (dropWhile is_space s)"
    by simp
  also have "\<dots> \<le> length s"
    by (rule length_dropWhile_le)
  finally show ?thesis .
qed

lemma trim_no_space:
  assumes "s = [] \<or> (\<not> is_space (hd s) \<and> \<not> is_space (last s))"
  shows "trim s = s"
proof (cases "s = []")
  case True
  then show ?thesis by (simp add: trim_def)
next
  case False
  with assms have a: "dropWhile is_space s = s"
    by (intro dropWhile_fixed) blast
  from False assms have "\<not> is_space (hd (rev s))"
    by (simp add: hd_rev)
  then have b: "dropWhile is_space (rev s) = rev s"
    by (intro dropWhile_fixed) blast
  show ?thesis
    by (simp only: trim_def a b rev_rev_ident)
qed

lemma trim_empty_iff: "trim t = [] \<longleftrightarrow> (\<forall>c \<in> set t. is_space c)"
proof
  assume "trim t = []"
  then have a: "\<forall>c \<in> set (dropWhile is_space t). is_space c"
    by (simp add: trim_def dropWhile_eq_Nil_conv)
  have "dropWhile is_space t = []"
  proof (rule ccontr)
    assume ne: "dropWhile is_space t \<noteq> []"
    then have "\<not> is_space (hd (dropWhile is_space t))"
      by (rule hd_dropWhile)
    moreover from ne have "hd (dropWhile is_space t) \<in> set (dropWhile is_space t)"
      by (rule hd_in_set)
    ultimately show False
      using a by blast
  qed
  then show "\<forall>c \<in> set t. is_space c"
    by (simp add: dropWhile_eq_Nil_conv)
next
  assume "\<forall>c \<in> set t. is_space c"
  then have e: "dropWhile is_space t = []"
    by (simp add: dropWhile_eq_Nil_conv)
  show "trim t = []"
    unfolding trim_def e by simp
qed

lemma trim_replicate: "\<not> is_space c \<Longrightarrow> trim (replicate n c) = replicate n c"
  by (rule trim_no_space) (cases n, simp_all)

lemma not_space_a: "\<not> is_space CHR ''a''"
  by (simp add: is_space_def)

section \<open>Create\<close>

lemma path_errors_ok:
  assumes "\<And>t. v_title v = Some t \<Longrightarrow> t \<noteq> [] \<and> length t \<le> 255"
    and "\<And>x. v_description v = Some x \<Longrightarrow> length x \<le> 1000"
    and "\<And>st. v_status v = Some st \<Longrightarrow> st \<in> set todoStatusSchema"
    and "\<And>u. v_user v = Some u \<Longrightarrow> u \<noteq> []"
  shows "path_errors v = []"
  using assms
  by (auto simp: path_errors_def todoStatusSchema_def split: option.splits)

lemma createTodo_success:
  assumes auth: "caller req = Some uid"
    and t: "todoData ''title'' = Some (JStr t)" "trim t \<noteq> []" "length t \<le> 255"
    and d: "todoData ''description'' = None \<or>
            (\<exists>x. todoData ''description'' = Some (JStr x) \<and> length x \<le> 1000)"
    and st: "\<not> truthy (todoData ''status'') \<or>
             (\<exists>x. todoData ''status'' = Some (JStr x) \<and> x \<in> set todoStatusSchema)"
    and dates: "todoData ''createdAt'' = None" "todoData ''updatedAt'' = None"
  shows "createTodo now req todoData s =
           Inr (\<lparr> todo_id = next_id s, title = trim t,
                   description = map_option trim (str_of (todoData ''description'')),
                   status = (if truthy (todoData ''status'')
                             then the (str_of (todoData ''status'')) else ''pending''),
                   user = uid, createdAt = now, updatedAt = now \<rparr>,
                s\<lparr> docs := docs s @
                     [\<lparr> todo_id = next_id s, title = trim t,
                        description = map_option trim (str_of (todoData ''description'')),
                        status = (if truthy (todoData ''status'')
                                  then the (str_of (todoData ''status'')) else ''pending''),
                        user = uid, createdAt = now, updatedAt = now \<rparr>],
                   next_id := Suc (next_id s) \<rparr>)"
proof -
  from auth have uid: "uid \<noteq> []"
    by (auto simp: caller_def split: option.splits if_splits)
  from t have tne: "t \<noteq> []"
    by (auto simp: trim_def)
  define st' where "st' = or_else (todoData ''status'') (JStr ''pending'')"
  have st': "st' = JStr (if truthy (todoData ''status'')
                         then the (str_of (todoData ''status'')) else ''pending'')"
    using st by (auto simp: st'_def or_else_def split: option.splits)
  have stin: "(if truthy (todoData ''status'')
               then the (str_of (todoData ''status'')) else ''pending'') \<in> set todoStatusSchema"
    using st by (auto simp: todoStatusSchema_def)
  have parse: "todoSchema_parse False (todoData(''user'' \<mapsto> JStr uid, ''status'' \<mapsto> st')) =
      Inr \<lparr> v_title = Some t, v_description = str_of (todoData ''description''),
            v_status = Some (if truthy (todoData ''status'')
                             then the (str_of (todoData ''status'')) else ''pending''),
            v_user = Some uid \<rparr>"
    using t tne d stin uid dates unfolding st'
    by (auto simp: todoSchema_parse_def title_issues_def description_issues_def
        status_issues_def user_issues_def date_issues_def)
  have lt: "length (trim t) \<le> 255"
    using length_trim [of t] t by simp
  have ld: "\<And>x. map_option trim (str_of (todoData ''description'')) = Some x \<Longrightarrow> length x \<le> 1000"
    using d by (auto intro: le_trans [OF length_trim])
  have pe: "path_errors (apply_setters \<lparr> v_title = Some t, v_description = str_of (todoData ''description''),
            v_status = Some (if truthy (todoData ''status'')
                             then the (str_of (todoData ''status'')) else ''pending''),
            v_user = Some uid \<rparr>) = []"
    using t lt ld stin uid by (intro path_errors_ok) (auto simp: apply_setters_def)
  show ?thesis
    using auth parse pe
    by (simp add: createTodo_def st'_def Todo_save_def Let_def missing_errors_def apply_setters_def)
qed

lemma createTodoController_success:
  fixes now :: nat and s :: store and req :: request and uid t :: string
  assumes auth: "caller req = Some uid"
    and t: "body req ''title'' = Some (JStr t)" "trim t \<noteq> []" "length (trim t) \<le> 255"
    and d: "description_ok (body req)"
    and st: "status_ok (body req)"
  defines "item \<equiv> \<lparr> todo_id = next_id s, title = trim t,
                     description = (case body req ''description'' of
                                      Some (JStr x) \<Rightarrow> Some (trim x) | _ \<Rightarrow> None),
                     status = (if truthy (body req ''status'')
                               then the (str_of (body req ''status'')) else ''pending''),
                     user = uid, createdAt = now, updatedAt = now \<rparr>"
  shows "createTodoController now req s =
           (created item, s\<lparr> docs := docs s @ [item], next_id := Suc (next_id s) \<rparr>)"
proof -
  from t have tr: "truthy (body req ''title'')"
    by (auto simp: trim_def)
  obtain trimmed where ot: "opt_trim (body req ''description'') = Inr trimmed"
    and tr1: "trimmed = None \<or> (\<exists>x. trimmed = Some (JStr x) \<and> length x \<le> 1000)"
    and tr2: "map_option trim (str_of trimmed) =
              (case body req ''description'' of Some (JStr x) \<Rightarrow> Some (trim x) | _ \<Rightarrow> None)"
    using d by (auto simp: description_ok_def trim_idem split: option.splits json.splits)
  define todoData where "todoData =
      (Map.empty(''title'' \<mapsto> JStr (trim t),
                 ''status'' \<mapsto> or_else (body req ''status'') (JStr ''pending'')))
      (''description'' := trimmed)"
  have td: "todoData ''title'' = Some (JStr (trim t))"
      "todoData ''description'' = trimmed"
      "todoData ''status'' = Some (or_else (body req ''status'') (JStr ''pending''))"
      "todoData ''createdAt'' = None" "todoData ''updatedAt'' = None"
    by (simp_all add: todoData_def)
  have oe: "or_else (body req ''status'') (JStr ''pending'') =
            JStr (if truthy (body req ''status'')
                  then the (str_of (body req ''status'')) else ''pending'')"
    using st by (auto simp: or_else_def status_ok_def split: option.splits json.splits)
  have stv: "(if truthy (body req ''status'')
              then the (str_of (body req ''status'')) else ''pending'') \<in> set todoStatusSchema"
    using st by (auto simp: status_ok_def todoStatusSchema_def split: option.splits json.splits)
  then have ne: "(if truthy (body req ''status'')
              then the (str_of (body req ''status'')) else ''pending'') \<noteq> []"
    by (auto simp: todoStatusSchema_def split: if_splits)
  have c: "createTodo now req todoData s =
             Inr (item, s\<lparr> docs := docs s @ [item], next_id := Suc (next_id s) \<rparr>)"
    using createTodo_success [where req = req and uid = uid and todoData = todoData
        and t = "trim t" and now = now and s = s] auth t tr1 stv ne
    unfolding td oe item_def tr2 [symmetric]
    by (simp add: trim_idem)
  show ?thesis
    using tr t ot c
    by (simp add: createTodoController_def Let_def todoData_def created_def)
qed

lemma createTodoController_blank:
  assumes "\<not> truthy (body req ''title'') \<or> (\<exists>t. body req ''title'' = Some (JStr t) \<and> trim t = [])"
  shows "createTodoController now req s = (failure 400 ''Title is required'', s)"
  using assms by (auto simp: createTodoController_def Let_def)

lemma createTodo_rejects:
  assumes "title_issues False (todoData ''title'') \<noteq> [] \<or>
           description_issues (todoData ''description'') \<noteq> []"
  shows "\<exists>e. createTodo now req todoData s = Inl e"
  using assms
  by (auto simp: createTodo_def todoSchema_parse_def Let_def split: option.splits)

lemma createTodoController_rejects:
  assumes t: "body req ''title'' = Some (JStr t)" "trim t \<noteq> []"
    and bad: "length (trim t) > 255 \<or>
              (\<exists>x. body req ''description'' = Some (JStr x) \<and> length (trim x) > 1000)"
  shows "\<exists>m. createTodoController now req s = (failure 500 m, s)"
proof -
  from t have tr: "truthy (body req ''title'')"
    by (auto simp: trim_def)
  show ?thesis
  proof (cases "opt_trim (body req ''description'')")
    case (Inl e)
    with tr t show ?thesis
      by (simp add: createTodoController_def Let_def) blast
  next
    case (Inr trimmed)
    define todoData where "todoData =
      (Map.empty(''title'' \<mapsto> JStr (trim t),
                 ''status'' \<mapsto> or_else (body req ''status'') (JStr ''pending'')))
      (''description'' := trimmed)"
    have "title_issues False (todoData ''title'') \<noteq> [] \<or>
          description_issues (todoData ''description'') \<noteq> []"
      using bad Inr t
      by (auto simp: todoData_def title_issues_def description_issues_def)
    from createTodo_rejects [OF this, of now req s]
    obtain e where "createTodo now req todoData s = Inl e" ..
    with tr t Inr show ?thesis
      by (simp add: createTodoController_def Let_def todoData_def) blast
  qed
qed

lemma createTodoController_not_string:
  assumes "truthy (body req ''title'')" and "\<And>t. body req ''title'' \<noteq> Some (JStr t)"
  shows "\<exists>m. createTodoController now req s = (failure 500 m, s)"
  using assms
  by (cases "body req ''title''"; cases "the (body req ''title'')")
     (auto simp: createTodoController_def Let_def)

text \<open>
  C1, as amended. A create whose title is missing (falsy, or blank after trimming) is
  answered by the handler with the failure envelope, status 400 and the message
  \<open>Title is required\<close>. A create whose title is longer than 255 after trimming, or
  whose description is longer than 1000 after trimming, is rejected by the schema in the
  data access layer, and the handler answers with the failure envelope and status 500.
  In both cases nothing is persisted.
\<close>

theorem create_invalid_payload_response:
  assumes "title_missing (body req) \<or> title_too_long (body req) \<or> description_too_long (body req)"
  shows "(title_missing (body req) \<longrightarrow>
            createTodoController now req s = (failure 400 ''Title is required'', s)) \<and>
         (\<not> title_missing (body req) \<longrightarrow>
            (\<exists>m. createTodoController now req s = (failure 500 m, s)))"
proof (intro conjI impI)
  assume "title_missing (body req)"
  then have "\<not> truthy (body req ''title'') \<or> (\<exists>t. body req ''title'' = Some (JStr t) \<and> trim t = [])"
    by (auto simp: title_missing_def split: option.splits json.splits)
  then show "createTodoController now req s = (failure 400 ''Title is required'', s)"
    by (rule createTodoController_blank)
next
  assume nm: "\<not> title_missing (body req)"
  show "\<exists>m. createTodoController now req s = (failure 500 m, s)"
  proof (cases "\<exists>t. body req ''title'' = Some (JStr t)")
    case True
    then obtain t where t: "body req ''title'' = Some (JStr t)" ..
    with nm have ne: "trim t \<noteq> []"
      by (simp add: title_missing_def)
    from assms nm t have "length (trim t) > 255 \<or>
        (\<exists>x. body req ''description'' = Some (JStr x) \<and> length (trim x) > 1000)"
      by (auto simp: title_too_long_def description_too_long_def split: option.splits json.splits)
    with t ne show ?thesis
      by (rule createTodoController_rejects)
  next
    case False
    with nm have "truthy (body req ''title'')"
      by (auto simp: title_missing_def split: option.splits json.splits)
    with False show ?thesis
      by (intro createTodoController_not_string) auto
  qed
qed

theorem create_invalid_payload_response_witness:
  "createTodoController 1
     \<lparr> user_id = Some ''alice'', body = map_of [(''title'', JStr ''  '')], params_id = 0,
       req_query = \<lparr> q_status = None, q_limit = None, q_skip = None \<rparr> \<rparr>
     \<lparr> docs = [], next_id = 0 \<rparr> =
   (failure 400 ''Title is required'', \<lparr> docs = [], next_id = 0 \<rparr>) \<and>
   code (fst (createTodoController 1
     \<lparr> user_id = Some ''alice'',
       body = map_of [(''title'', JStr ''a''), (''description'', JStr (replicate 1001 CHR ''a''))],
       params_id = 0,
       req_query = \<lparr> q_status = None, q_limit = None, q_skip = None \<rparr> \<rparr>
     \<lparr> docs = [], next_id = 0 \<rparr>)) = 500"
proof -
  have ta: "trim ''a'' = ''a''" and tb: "trim ''  '' = []"
    by (simp_all add: trim_def is_space_def)
  have 1: "title_missing (map_of [(''title'', JStr ''  '')])"
    by (simp add: title_missing_def tb)
  have 2: "\<not> title_missing
      (map_of [(''title'', JStr ''a''), (''description'', JStr (replicate 1001 CHR ''a''))])"
    by (simp add: title_missing_def ta)
  have 3: "description_too_long
      (map_of [(''title'', JStr ''a''), (''description'', JStr (replicate 1001 CHR ''a''))])"
    by (simp add: description_too_long_def trim_replicate not_space_a)
  show ?thesis
    using create_invalid_payload_response [of "\<lparr> user_id = Some ''alice'',
        body = map_of [(''title'', JStr ''  '')], params_id = 0,
        req_query = \<lparr> q_status = None, q_limit = None, q_skip = None \<rparr> \<rparr>" 1
        "\<lparr> docs = [], next_id = 0 \<rparr>"]
      create_invalid_payload_response [of "\<lparr> user_id = Some ''alice'',
        body = map_of [(''title'', JStr ''a''),
                       (''description'', JStr (replicate 1001 CHR ''a''))], params_id = 0,
        req_query = \<lparr> q_status = None, q_limit = None, q_skip = None \<rparr> \<rparr>" 1
        "\<lparr> docs = [], next_id = 0 \<rparr>"]
      1 2 3
    by (auto simp: failure_def)
qed

text \<open>
  A title of 256 characters fails the length constraint, and the answer does not have
  status 400.
\<close>

theorem create_long_title_counterexample:
  "title_too_long (map_of [(''title'', JStr (replicate 256 CHR ''a''))]) \<and>
   code (fst (createTodoController 1
     \<lparr> user_id = Some ''alice'', body = map_of [(''title'', JStr (replicate 256 CHR ''a''))],
       params_id = 0, req_query = \<lparr> q_status = None, q_limit = None, q_skip = None \<rparr> \<rparr>
     \<lparr> docs = [], next_id = 0 \<rparr>)) \<noteq> 400"
proof -
  have "\<exists>m. createTodoController 1
     \<lparr> user_id = Some ''alice'', body = map_of [(''title'', JStr (replicate 256 CHR ''a''))],
       params_id = 0, req_query = \<lparr> q_status = None, q_limit = None, q_skip = None \<rparr> \<rparr>
     \<lparr> docs = [], next_id = 0 \<rparr> = (failure 500 m, \<lparr> docs = [], next_id = 0 \<rparr>)"
    by (rule createTodoController_rejects [where t = "replicate 256 CHR ''a''"])
       (simp_all add: trim_replicate not_space_a)
  then show ?thesis
    by (auto simp: failure_def title_too_long_def trim_replicate not_space_a)
qed

lemma createTodo_owner:
  assumes "createTodo now req todoData s = Inr (d, s')"
  shows "caller req = Some (user d) \<and> s' = s\<lparr> docs := docs s @ [d], next_id := Suc (next_id s) \<rparr>"
proof -
  from assms obtain uid where auth: "caller req = Some uid"
    by (auto simp: createTodo_def split: option.splits)
  from assms auth obtain v where
    p: "todoSchema_parse False
          (todoData(''user'' \<mapsto> JStr uid,
                    ''status'' \<mapsto> or_else (todoData ''status'') (JStr ''pending''))) = Inr v"
    and sv: "Todo_save now v s = Inr (d, s')"
    by (auto simp: createTodo_def split: sum.splits)
  from p have "v_user v = Some uid"
    by (auto simp: todoSchema_parse_def Let_def split: if_splits)
  with sv have "user d = uid" and "s' = s\<lparr> docs := docs s @ [d], next_id := Suc (next_id s) \<rparr>"
    by (auto simp: Todo_save_def Let_def apply_setters_def split: if_splits option.splits)
  with auth show ?thesis by simp
qed

lemma createTodoController_outcome:
  "(\<exists>c m. createTodoController now req s = (failure c m, s)) \<or>
   (\<exists>todoData d s'. createTodo now req todoData s = Inr (d, s') \<and>
        createTodoController now req s = (created d, s'))"
  unfolding createTodoController_def Let_def created_def
  by (auto split: option.splits json.splits sum.splits prod.splits)

text \<open>
  C2. For an authenticated caller and every request body, whatever keys it carries: when
  the create succeeds, the item returned is the one item added to the store and its
  owner is the caller; when it fails, the store is as it was. The same holds of the data
  access operation for every payload, also one that has a \<open>user\<close> key of its own: the
  caller's identity overrides it.
\<close>

theorem create_owner_is_caller:
  assumes "caller req = Some uid"
  shows "(createTodoController now req s = (r, s') \<and> success r \<longrightarrow>
            (\<exists>d. data r = Some (Item d) \<and> user d = uid \<and> docs s' = docs s @ [d])) \<and>
         (createTodoController now req s = (r, s') \<and> \<not> success r \<longrightarrow> s' = s) \<and>
         (createTodo now req todoData s = Inr (d', s'') \<longrightarrow>
            user d' = uid \<and> docs s'' = docs s @ [d'])"
proof -
  have 1: "\<exists>d. data r = Some (Item d) \<and> user d = uid \<and> docs s' = docs s @ [d]"
    if a: "createTodoController now req s = (r, s') \<and> success r"
  proof -
    from a createTodoController_outcome [of now req s]
    obtain todoData d where c: "createTodo now req todoData s = Inr (d, s')"
      and r: "r = created d"
      by (auto simp: failure_def)
    from createTodo_owner [OF c] assms r show ?thesis
      by (auto simp: created_def)
  qed
  have 2: "s' = s" if a: "createTodoController now req s = (r, s') \<and> \<not> success r"
    using a createTodoController_outcome [of now req s]
    by (auto simp: created_def)
  have 3: "user d' = uid \<and> docs s'' = docs s @ [d']"
    if a: "createTodo now req todoData s = Inr (d', s'')"
    using createTodo_owner [OF a] assms by auto
  from 1 2 3 show ?thesis
    by blast
qed

theorem create_owner_is_caller_witness:
  "caller \<lparr> user_id = Some ''alice'',
            body = map_of [(''title'', JStr ''Buy milk''), (''user'', JStr ''mallory''),
                           (''owner'', JStr ''mallory'')],
            params_id = 0,
            req_query = \<lparr> q_status = None, q_limit = None, q_skip = None \<rparr> \<rparr> = Some ''alice'' \<and>
   map user
     (docs (snd (createTodoController 7
        \<lparr> user_id = Some ''alice'',
          body = map_of [(''title'', JStr ''Buy milk''), (''user'', JStr ''mallory''),
                         (''owner'', JStr ''mallory'')],
          params_id = 0,
          req_query = \<lparr> q_status = None, q_limit = None, q_skip = None \<rparr> \<rparr>
        \<lparr> docs = [], next_id = 0 \<rparr>))) = [''alice'']"
proof -
  define req where "req = \<lparr> user_id = Some ''alice'',
            body = map_of [(''title'', JStr ''Buy milk''), (''user'', JStr ''mallory''),
                           (''owner'', JStr ''mallory'')],
            params_id = 0,
            req_query = \<lparr> q_status = None, q_limit = None, q_skip = None \<rparr> \<rparr>"
  define s where "s = \<lparr> docs = [], next_id = 0 \<rparr>"
  have auth: "caller req = Some ''alice''"
    by (simp add: req_def caller_def)
  have t: "trim ''Buy milk'' = ''Buy milk''"
    by (rule trim_no_space) (simp add: is_space_def)
  have ok: "createTodoController 7 req s =
      (created \<lparr> todo_id = 0, title = ''Buy milk'', description = None, status = ''pending'',
                 user = ''alice'', createdAt = 7, updatedAt = 7 \<rparr>,
       \<lparr> docs = [\<lparr> todo_id = 0, title = ''Buy milk'', description = None,
                   status = ''pending'', user = ''alice'', createdAt = 7, updatedAt = 7 \<rparr>],
         next_id = 1 \<rparr>)"
    using createTodoController_success [OF auth, of "''Buy milk''" 7 s]
    by (simp add: req_def s_def t description_ok_def status_ok_def)
  from create_owner_is_caller [OF auth, of 7 s "fst (createTodoController 7 req s)"
      "snd (createTodoController 7 req s)"] ok
  show ?thesis
    unfolding req_def [symmetric] s_def [symmetric]
    by (auto simp: auth created_def s_def t)
qed

text \<open>
  C9. For an authenticated caller and a title that is a string: a title that is empty
  or consists of white space only is answered with status 400 and \<open>Title is required\<close>;
  a title of length 256 after trimming fails (the failure envelope, nothing persisted); a
  title of length 255 after trimming, with a description and a status that are
  acceptable, succeeds with status 201 and the trimmed title is persisted.
\<close>

theorem create_title_bounds:
  assumes auth: "caller req = Some uid"
    and t: "body req ''title'' = Some (JStr t)"
  shows "((\<forall>c \<in> set t. is_space c) \<longrightarrow>
            createTodoController now req s = (failure 400 ''Title is required'', s)) \<and>
         (length (trim t) = 256 \<longrightarrow>
            (\<exists>m. createTodoController now req s = (failure 500 m, s))) \<and>
         (length (trim t) = 255 \<and> description_ok (body req) \<and> status_ok (body req) \<longrightarrow>
            (\<exists>d. createTodoController now req s =
                    (created d, s\<lparr> docs := docs s @ [d], next_id := Suc (next_id s) \<rparr>) \<and>
                  title d = trim t))"
proof -
  have 1: "createTodoController now req s = (failure 400 ''Title is required'', s)"
    if "\<forall>c \<in> set t. is_space c"
  proof -
    from that have "trim t = []"
      by (simp only: trim_empty_iff)
    with t show ?thesis
      by (intro createTodoController_blank) simp
  qed
  have 2: "\<exists>m. createTodoController now req s = (failure 500 m, s)"
    if "length (trim t) = 256"
    using that by (intro createTodoController_rejects [OF t]) auto
  have 3: "\<exists>d. createTodoController now req s =
                    (created d, s\<lparr> docs := docs s @ [d], next_id := Suc (next_id s) \<rparr>) \<and>
                  title d = trim t"
    if a: "length (trim t) = 255 \<and> description_ok (body req) \<and> status_ok (body req)"
  proof -
    from a have ne: "trim t \<noteq> []" and le: "length (trim t) \<le> 255"
      and d: "description_ok (body req)" and st: "status_ok (body req)"
      by auto
    note eq = createTodoController_success [OF auth t ne le d st, of now s]
    show ?thesis
      by (intro exI conjI, rule eq, simp)
  qed
  from 1 2 3 show ?thesis
    by blast
qed

theorem create_title_bounds_witness:
  "createTodoController 1
     \<lparr> user_id = Some ''alice'', body = map_of [(''title'', JStr ''   '')], params_id = 0,
       req_query = \<lparr> q_status = None, q_limit = None, q_skip = None \<rparr> \<rparr>
     \<lparr> docs = [], next_id = 0 \<rparr> = (failure 400 ''Title is required'', \<lparr> docs = [], next_id = 0 \<rparr>) \<and>
   code (fst (createTodoController 1
     \<lparr> user_id = Some ''alice'', body = map_of [(''title'', JStr (replicate 256 CHR ''a''))], params_id = 0,
       req_query = \<lparr> q_status = None, q_limit = None, q_skip = None \<rparr> \<rparr>
     \<lparr> docs = [], next_id = 0 \<rparr>)) = 500 \<and>
   code (fst (createTodoController 1
     \<lparr> user_id = Some ''alice'', body = map_of [(''title'', JStr (replicate 255 CHR ''a''))], params_id = 0,
       req_query = \<lparr> q_status = None, q_limit = None, q_skip = None \<rparr> \<rparr>
     \<lparr> docs = [], next_id = 0 \<rparr>)) = 201 \<and>
   map title (docs (snd (createTodoController 1
     \<lparr> user_id = Some ''alice'', body = map_of [(''title'', JStr (replicate 255 CHR ''a''))], params_id = 0,
       req_query = \<lparr> q_status = None, q_limit = None, q_skip = None \<rparr> \<rparr>
     \<lparr> docs = [], next_id = 0 \<rparr>))) = [replicate 255 CHR ''a'']"
proof -
  have auth: "\<And>b. caller \<lparr> user_id = Some ''alice'', body = b, params_id = 0,
       req_query = \<lparr> q_status = None, q_limit = None, q_skip = None \<rparr> \<rparr> = Some ''alice''"
    by (simp add: caller_def)
  have sp: "\<forall>c \<in> set ''   ''. is_space c"
    by (simp add: is_space_def)
  note tr = trim_replicate [OF not_space_a]
  from create_title_bounds [OF auth, of "map_of [(''title'', JStr ''   '')]" "''   ''" 1 "\<lparr> docs = [], next_id = 0 \<rparr>"] sp
  have 1: "createTodoController 1
     \<lparr> user_id = Some ''alice'', body = map_of [(''title'', JStr ''   '')], params_id = 0,
       req_query = \<lparr> q_status = None, q_limit = None, q_skip = None \<rparr> \<rparr>
     \<lparr> docs = [], next_id = 0 \<rparr> = (failure 400 ''Title is required'', \<lparr> docs = [], next_id = 0 \<rparr>)"
    by simp
  from create_title_bounds [OF auth, of "map_of [(''title'', JStr (replicate 256 CHR ''a''))]"
      "replicate 256 CHR ''a''" 1 "\<lparr> docs = [], next_id = 0 \<rparr>"]
  have 2: "code (fst (createTodoController 1
     \<lparr> user_id = Some ''alice'', body = map_of [(''title'', JStr (replicate 256 CHR ''a''))], params_id = 0,
       req_query = \<lparr> q_status = None, q_limit = None, q_skip = None \<rparr> \<rparr>
     \<lparr> docs = [], next_id = 0 \<rparr>)) = 500"
    by (auto simp: tr failure_def)
  from create_title_bounds [OF auth, of "map_of [(''title'', JStr (replicate 255 CHR ''a''))]"
      "replicate 255 CHR ''a''" 1 "\<lparr> docs = [], next_id = 0 \<rparr>"]
  have 3: "code (fst (createTodoController 1
     \<lparr> user_id = Some ''alice'', body = map_of [(''title'', JStr (replicate 255 CHR ''a''))], params_id = 0,
       req_query = \<lparr> q_status = None, q_limit = None, q_skip = None \<rparr> \<rparr>
     \<lparr> docs = [], next_id = 0 \<rparr>)) = 201 \<and>
   map title (docs (snd (createTodoController 1
     \<lparr> user_id = Some ''alice'', body = map_of [(''title'', JStr (replicate 255 CHR ''a''))], params_id = 0,
       req_query = \<lparr> q_status = None, q_limit = None, q_skip = None \<rparr> \<rparr>
     \<lparr> docs = [], next_id = 0 \<rparr>))) = [replicate 255 CHR ''a'']"
    by (auto simp: tr created_def description_ok_def status_ok_def)
  from 1 2 3 show ?thesis
    by simp
qed

text \<open>
  C10. For an authenticated caller and a payload that is otherwise valid, a status that
  is falsy (absent, \<open>null\<close>, \<open>false\<close>, 0 or the empty string) does not make the create
  fail: the item is persisted and returned with status \<open>pending\<close>.
\<close>

theorem create_falsy_status_defaults:
  assumes auth: "caller req = Some uid"
    and t: "body req ''title'' = Some (JStr t)" "trim t \<noteq> []" "length (trim t) \<le> 255"
    and d: "description_ok (body req)"
    and st: "\<not> truthy (body req ''status'')"
  shows "\<exists>d. createTodoController now req s =
                (created d, s\<lparr> docs := docs s @ [d], next_id := Suc (next_id s) \<rparr>) \<and>
              status d = ''pending''"
proof -
  from st have ok: "status_ok (body req)"
    by (simp add: status_ok_def)
  note eq = createTodoController_success [OF auth t d ok, of now s]
  show ?thesis
    by (intro exI conjI, rule eq, simp add: st)
qed

theorem create_falsy_status_defaults_witness:
  "\<not> truthy (Some (JStr [])) \<and>
   code (fst (createTodoController 1
     \<lparr> user_id = Some ''alice'', body = map_of [(''title'', JStr ''Buy milk''), (''status'', JStr [])], params_id = 0,
       req_query = \<lparr> q_status = None, q_limit = None, q_skip = None \<rparr> \<rparr>
     \<lparr> docs = [], next_id = 0 \<rparr>)) = 201 \<and>
   map status (docs (snd (createTodoController 1
     \<lparr> user_id = Some ''alice'', body = map_of [(''title'', JStr ''Buy milk''), (''status'', JStr [])], params_id = 0,
       req_query = \<lparr> q_status = None, q_limit = None, q_skip = None \<rparr> \<rparr>
     \<lparr> docs = [], next_id = 0 \<rparr>))) = [''pending'']"
proof -
  have auth: "caller \<lparr> user_id = Some ''alice'', body = map_of [(''title'', JStr ''Buy milk''), (''status'', JStr [])], params_id = 0,
       req_query = \<lparr> q_status = None, q_limit = None, q_skip = None \<rparr> \<rparr> = Some ''alice''"
    by (simp add: caller_def)
  have t: "trim ''Buy milk'' = ''Buy milk''"
    by (rule trim_no_space) (simp add: is_space_def)
  from create_falsy_status_defaults [OF auth, of "''Buy milk''" 1 "\<lparr> docs = [], next_id = 0 \<rparr>"]
  show ?thesis
    by (auto simp: t created_def description_ok_def)
qed

section \<open>Store operations\<close>

lemma find_update_first:
  "find P xs = Some d \<Longrightarrow> P (f d) \<Longrightarrow> find P (update_first P f xs) = Some (f d)"
  by (induction xs) (auto split: if_splits)

lemma others_update_first:
  "(\<And>x. P x \<Longrightarrow> P (f x)) \<Longrightarrow>
   filter (\<lambda>x. \<not> P x) (update_first P f xs) = filter (\<lambda>x. \<not> P x) xs"
  by (induction xs) auto

lemma length_update_first: "length (update_first P f xs) = length xs"
  by (induction xs) auto

lemma find_matches:
  "find (matches i uid) xs = Some d \<Longrightarrow> todo_id d = i \<and> user d = uid \<and> d \<in> set xs"
  by (induction xs) (auto simp: matches_def split: if_splits)

section \<open>Toggle\<close>

lemma newStatus_valid: "newStatus st \<in> set todoStatusSchema"
  by (simp add: newStatus_def todoStatusSchema_def)

lemma toggle_found:
  assumes auth: "caller req = Some uid"
    and found: "Todo_findOne i uid s = Some d"
  shows "toggleTodoStatus now req i s =
           Inr (Some (d\<lparr> status := newStatus (status d), updatedAt := now \<rparr>),
                s\<lparr> docs := update_first (matches i uid)
                              (\<lambda>x. x\<lparr> status := newStatus (status d), updatedAt := now \<rparr>)
                              (docs s) \<rparr>)"
proof -
  have pe: "path_errors (apply_setters \<lparr> v_title = None, v_description = None,
               v_status = Some (newStatus (status d)), v_user = None \<rparr>) = []"
    using newStatus_valid [of "status d"]
    by (auto simp: path_errors_def apply_setters_def todoStatusSchema_def)
  have au: "apply_update (apply_setters \<lparr> v_title = None, v_description = None,
               v_status = Some (newStatus (status d)), v_user = None \<rparr>) now =
            (\<lambda>x. x\<lparr> status := newStatus (status d), updatedAt := now \<rparr>)"
    by (rule ext) (simp add: apply_update_def apply_setters_def)
  from found have f: "find (matches i uid) (docs s) = Some d"
    by (simp add: Todo_findOne_def)
  show ?thesis
    using auth found
    by (simp add: toggleTodoStatus_def Todo_findOneAndUpdate_def Let_def pe au f)
qed

text \<open>
  C4. For an authenticated caller and an item of theirs with the given id, the toggle
  answers 200 with the updated item: the item as stored, with the status that follows the
  stored one (\<open>pending\<close> to \<open>in_progress\<close>, \<open>in_progress\<close> to \<open>completed\<close>, \<open>completed\<close> to
  \<open>pending\<close>, anything else to \<open>pending\<close>) and \<open>updatedAt\<close> set to the time of the call.
  That item is what the store then holds under the id; every other item is untouched.
\<close>

theorem toggle_cycles_status:
  assumes auth: "caller req = Some uid"
    and found: "Todo_findOne (params_id req) uid s = Some d"
  shows "\<exists>d' s'.
           toggleTodoStatusController now req s =
             (\<lparr> code = 200, success = True, data = Some (Item d'),
                message = Some (''Todo status changed to '' @ status d'), count = None \<rparr>, s') \<and>
           d' = d\<lparr> status := (if status d = ''pending'' then ''in_progress''
                               else if status d = ''in_progress'' then ''completed''
                               else if status d = ''completed'' then ''pending''
                               else ''pending''),
                    updatedAt := now \<rparr> \<and>
           Todo_findOne (params_id req) uid s' = Some d' \<and>
           filter (\<lambda>x. \<not> matches (params_id req) uid x) (docs s') =
             filter (\<lambda>x. \<not> matches (params_id req) uid x) (docs s) \<and>
           length (docs s') = length (docs s)"
proof -
  define upd where "upd = (\<lambda>x::todo. x\<lparr> status := newStatus (status d), updatedAt := now \<rparr>)"
  define s' where "s' = s\<lparr> docs := update_first (matches (params_id req) uid) upd (docs s) \<rparr>"
  from found have f: "find (matches (params_id req) uid) (docs s) = Some d"
    by (simp add: Todo_findOne_def)
  from find_matches [OF f] have m: "matches (params_id req) uid (upd d)"
    by (simp add: matches_def upd_def)
  have keep: "\<And>x. matches (params_id req) uid x \<Longrightarrow> matches (params_id req) uid (upd x)"
    by (simp add: matches_def upd_def)
  have t: "toggleTodoStatus now req (params_id req) s = Inr (Some (upd d), s')"
    using toggle_found [OF auth found, of now] by (simp add: upd_def s'_def)
  have 1: "toggleTodoStatusController now req s =
             (\<lparr> code = 200, success = True, data = Some (Item (upd d)),
                message = Some (''Todo status changed to '' @ status (upd d)), count = None \<rparr>, s')"
    by (simp add: toggleTodoStatusController_def t)
  have 2: "upd d = d\<lparr> status := (if status d = ''pending'' then ''in_progress''
                               else if status d = ''in_progress'' then ''completed''
                               else if status d = ''completed'' then ''pending''
                               else ''pending''),
                    updatedAt := now \<rparr>"
    by (simp add: upd_def newStatus_def)
  have 3: "Todo_findOne (params_id req) uid s' = Some (upd d)"
    using find_update_first [where f = upd, OF f m] by (simp add: Todo_findOne_def s'_def)
  have 4: "filter (\<lambda>x. \<not> matches (params_id req) uid x) (docs s') =
             filter (\<lambda>x. \<not> matches (params_id req) uid x) (docs s)"
    using others_update_first [of "matches (params_id req) uid" upd "docs s"] keep
    by (simp add: s'_def)
  have 5: "length (docs s') = length (docs s)"
    by (simp add: s'_def length_update_first)
  from 1 2 3 4 5 show ?thesis
    by blast
qed

theorem toggle_cycles_status_witness:
  "Todo_findOne 0 ''bob'' \<lparr> docs = [\<lparr> todo_id = 0, title = ''x'', description = Some ''old'', status = ''pending'',
       user = ''bob'', createdAt = 5, updatedAt = 5 \<rparr>], next_id = 1 \<rparr> = Some \<lparr> todo_id = 0, title = ''x'', description = Some ''old'', status = ''pending'',
       user = ''bob'', createdAt = 5, updatedAt = 5 \<rparr> \<and>
   data (fst (toggleTodoStatusController 9 \<lparr> user_id = Some ''bob'', body = map_of [], params_id = 0,
       req_query = \<lparr> q_status = None, q_limit = None, q_skip = None \<rparr> \<rparr> \<lparr> docs = [\<lparr> todo_id = 0, title = ''x'', description = Some ''old'', status = ''pending'',
       user = ''bob'', createdAt = 5, updatedAt = 5 \<rparr>], next_id = 1 \<rparr>)) =
     Some (Item (\<lparr> todo_id = 0, title = ''x'', description = Some ''old'', status = ''pending'',
       user = ''bob'', createdAt = 5, updatedAt = 5 \<rparr>\<lparr> status := ''in_progress'', updatedAt := 9 \<rparr>)) \<and>
   Todo_findOne 0 ''bob'' (snd (toggleTodoStatusController 9 \<lparr> user_id = Some ''bob'', body = map_of [], params_id = 0,
       req_query = \<lparr> q_status = None, q_limit = None, q_skip = None \<rparr> \<rparr> \<lparr> docs = [\<lparr> todo_id = 0, title = ''x'', description = Some ''old'', status = ''pending'',
       user = ''bob'', createdAt = 5, updatedAt = 5 \<rparr>], next_id = 1 \<rparr>)) =
     Some (\<lparr> todo_id = 0, title = ''x'', description = Some ''old'', status = ''pending'',
       user = ''bob'', createdAt = 5, updatedAt = 5 \<rparr>\<lparr> status := ''in_progress'', updatedAt := 9 \<rparr>) \<and>
   Todo_findOne 0 ''bob'' \<lparr> docs = [\<lparr> todo_id = 0, title = ''x'', description = Some ''old'', status = ''archived'',
       user = ''bob'', createdAt = 5, updatedAt = 5 \<rparr>], next_id = 1 \<rparr> = Some \<lparr> todo_id = 0, title = ''x'', description = Some ''old'', status = ''archived'',
       user = ''bob'', createdAt = 5, updatedAt = 5 \<rparr> \<and>
   data (fst (toggleTodoStatusController 9 \<lparr> user_id = Some ''bob'', body = map_of [], params_id = 0,
       req_query = \<lparr> q_status = None, q_limit = None, q_skip = None \<rparr> \<rparr> \<lparr> docs = [\<lparr> todo_id = 0, title = ''x'', description = Some ''old'', status = ''archived'',
       user = ''bob'', createdAt = 5, updatedAt = 5 \<rparr>], next_id = 1 \<rparr>)) =
     Some (Item (\<lparr> todo_id = 0, title = ''x'', description = Some ''old'', status = ''archived'',
       user = ''bob'', createdAt = 5, updatedAt = 5 \<rparr>\<lparr> status := ''pending'', updatedAt := 9 \<rparr>))"
proof -
  have auth: "caller \<lparr> user_id = Some ''bob'', body = map_of [], params_id = 0,
       req_query = \<lparr> q_status = None, q_limit = None, q_skip = None \<rparr> \<rparr> = Some ''bob''"
    by (simp add: caller_def)
  have f: "Todo_findOne 0 ''bob'' \<lparr> docs = [\<lparr> todo_id = 0, title = ''x'', description = Some ''old'', status = ''pending'',
       user = ''bob'', createdAt = 5, updatedAt = 5 \<rparr>], next_id = 1 \<rparr> = Some \<lparr> todo_id = 0, title = ''x'', description = Some ''old'', status = ''pending'',
       user = ''bob'', createdAt = 5, updatedAt = 5 \<rparr>"
    by (simp add: Todo_findOne_def matches_def)
  have g: "Todo_findOne 0 ''bob'' \<lparr> docs = [\<lparr> todo_id = 0, title = ''x'', description = Some ''old'', status = ''archived'',
       user = ''bob'', createdAt = 5, updatedAt = 5 \<rparr>], next_id = 1 \<rparr> = Some \<lparr> todo_id = 0, title = ''x'', description = Some ''old'', status = ''archived'',
       user = ''bob'', createdAt = 5, updatedAt = 5 \<rparr>"
    by (simp add: Todo_findOne_def matches_def)
  from toggle_cycles_status [OF auth, of "\<lparr> docs = [\<lparr> todo_id = 0, title = ''x'', description = Some ''old'', status = ''pending'',
       user = ''bob'', createdAt = 5, updatedAt = 5 \<rparr>], next_id = 1 \<rparr>" "\<lparr> todo_id = 0, title = ''x'', description = Some ''old'', status = ''pending'',
       user = ''bob'', createdAt = 5, updatedAt = 5 \<rparr>" 9] f
  have 1: "data (fst (toggleTodoStatusController 9 \<lparr> user_id = Some ''bob'', body = map_of [], params_id = 0,
       req_query = \<lparr> q_status = None, q_limit = None, q_skip = None \<rparr> \<rparr> \<lparr> docs = [\<lparr> todo_id = 0, title = ''x'', description = Some ''old'', status = ''pending'',
       user = ''bob'', createdAt = 5, updatedAt = 5 \<rparr>], next_id = 1 \<rparr>)) =
     Some (Item (\<lparr> todo_id = 0, title = ''x'', description = Some ''old'', status = ''pending'',
       user = ''bob'', createdAt = 5, updatedAt = 5 \<rparr>\<lparr> status := ''in_progress'', updatedAt := 9 \<rparr>)) \<and>
   Todo_findOne 0 ''bob'' (snd (toggleTodoStatusController 9 \<lparr> user_id = Some ''bob'', body = map_of [], params_id = 0,
       req_query = \<lparr> q_status = None, q_limit = None, q_skip = None \<rparr> \<rparr> \<lparr> docs = [\<lparr> todo_id = 0, title = ''x'', description = Some ''old'', status = ''pending'',
       user = ''bob'', createdAt = 5, updatedAt = 5 \<rparr>], next_id = 1 \<rparr>)) =
     Some (\<lparr> todo_id = 0, title = ''x'', description = Some ''old'', status = ''pending'',
       user = ''bob'', createdAt = 5, updatedAt = 5 \<rparr>\<lparr> status := ''in_progress'', updatedAt := 9 \<rparr>)"
    by auto
  from toggle_cycles_status [OF auth, of "\<lparr> docs = [\<lparr> todo_id = 0, title = ''x'', description = Some ''old'', status = ''archived'',
       user = ''bob'', createdAt = 5, updatedAt = 5 \<rparr>], next_id = 1 \<rparr>" "\<lparr> todo_id = 0, title = ''x'', description = Some ''old'', status = ''archived'',
       user = ''bob'', createdAt = 5, updatedAt = 5 \<rparr>" 9] g
  have 2: "data (fst (toggleTodoStatusController 9 \<lparr> user_id = Some ''bob'', body = map_of [], params_id = 0,
       req_query = \<lparr> q_status = None, q_limit = None, q_skip = None \<rparr> \<rparr> \<lparr> docs = [\<lparr> todo_id = 0, title = ''x'', description = Some ''old'', status = ''archived'',
       user = ''bob'', createdAt = 5, updatedAt = 5 \<rparr>], next_id = 1 \<rparr>)) =
     Some (Item (\<lparr> todo_id = 0, title = ''x'', description = Some ''old'', status = ''archived'',
       user = ''bob'', createdAt = 5, updatedAt = 5 \<rparr>\<lparr> status := ''pending'', updatedAt := 9 \<rparr>))"
    by auto
  from f g 1 2 show ?thesis
    by simp
qed

section \<open>Update\<close>

lemma update_title_Next:
  assumes "update_title v u = Next u'"
  shows "(v = None \<and> u' = u) \<or>
         (\<exists>t. v = Some (JStr t) \<and> trim t \<noteq> [] \<and> u' = u(''title'' \<mapsto> JStr (trim t)))"
  using assms
  by (cases v; cases "the v") (auto simp: update_title_def split: if_splits)

lemma update_description_Next:
  assumes "update_description v u = Next u'"
  shows "(v = None \<and> u' = u) \<or> (v = Some JNull \<and> u' = u(''description'' := None)) \<or>
         (\<exists>x. v = Some (JStr x) \<and> u' = u(''description'' \<mapsto> JStr (trim x)))"
  using assms
  by (cases v rule: opt_trim.cases) (auto simp: update_description_def)

lemma update_status_Next:
  assumes "update_status v u = Next u'"
  shows "(v = None \<and> u' = u) \<or>
         (\<exists>st. v = Some (JStr st) \<and> st \<in> set todoStatusSchema \<and> u' = u(''status'' \<mapsto> JStr st))"
  using assms
  by (auto simp: update_status_def todoStatusSchema_def split: if_splits)

text \<open>What the three blocks leave in \<open>updateData\<close> when none of them returns or throws.\<close>

lemma update_steps:
  assumes 1: "update_title (b ''title'') Map.empty = Next u1"
    and 2: "update_description (b ''description'') u1 = Next u2"
    and 3: "update_status (b ''status'') u2 = Next u"
  shows "u ''title'' = (case b ''title'' of Some (JStr t) \<Rightarrow> Some (JStr (trim t)) | _ \<Rightarrow> None)"
    and "u ''description'' =
           (case b ''description'' of Some (JStr x) \<Rightarrow> Some (JStr (trim x)) | _ \<Rightarrow> None)"
    and "u ''status'' = (case b ''status'' of Some (JStr st) \<Rightarrow> Some (JStr st) | _ \<Rightarrow> None)"
    and "u ''user'' = None" and "u ''createdAt'' = None" and "u ''updatedAt'' = None"
    and "b ''title'' = None \<or> (\<exists>t. b ''title'' = Some (JStr t) \<and> trim t \<noteq> [])"
    and "b ''status'' = None \<or> (\<exists>st. b ''status'' = Some (JStr st) \<and> st \<in> set todoStatusSchema)"
  using update_title_Next [OF 1] update_description_Next [OF 2] update_status_Next [OF 3]
  by auto

lemma updateTodo_Inr:
  assumes r: "updateTodo now req i u s = Inr (d', s')"
    and auth: "caller req = Some uid"
    and found: "find (matches i uid) (docs s) = Some d"
    and nu: "u ''createdAt'' = None"
  defines "v \<equiv> \<lparr> v_title = map_option trim (str_of (u ''title'')),
                  v_description = map_option trim (str_of (u ''description'')),
                  v_status = str_of (u ''status''), v_user = Some uid \<rparr>"
  shows "d' = apply_update v now d"
    and "s' = s\<lparr> docs := update_first (matches i uid) (apply_update v now) (docs s) \<rparr>"
proof -
  from r auth obtain v0 where
    p: "todoSchema_parse True (u(''user'' \<mapsto> JStr uid)) = Inr v0"
    and f: "Todo_findOneAndUpdate i uid v0 now s = Inr (Some d', s')"
    by (auto simp: updateTodo_def split: sum.splits option.splits)
  from p have "apply_setters v0 = v"
    by (auto simp: todoSchema_parse_def Let_def apply_setters_def v_def split: if_splits)
  with f found show "d' = apply_update v now d"
    and "s' = s\<lparr> docs := update_first (matches i uid) (apply_update v now) (docs s) \<rparr>"
    by (auto simp: Todo_findOneAndUpdate_def Let_def split: if_splits)
qed

lemma updateTodo_nomatch:
  assumes "find (matches i uid) (docs s) = None"
    and "caller req = Some uid"
  shows "\<exists>e. updateTodo now req i u s = Inl e \<and>
             (\<forall>s'. find (matches i uid) (docs s') = None \<longrightarrow> updateTodo now req i u s' = Inl e)"
  using assms
  by (auto simp: updateTodo_def Todo_findOneAndUpdate_def Let_def split: sum.splits)

lemma update_Return:
  "update_title v u = Return r \<Longrightarrow> \<not> success r"
  "update_description v u = Return r \<Longrightarrow> \<not> success r"
  "update_status v u = Return r \<Longrightarrow> \<not> success r"
    by (auto simp: update_title_def update_description_def update_status_def failure_def
        split: if_splits option.splits json.splits sum.splits)

lemma updateTodoController_success:
  assumes "updateTodoController now req s = (r, s')" and "success r"
  shows "\<exists>u1 u2 u d'.
           update_title (body req ''title'') Map.empty = Next u1 \<and>
           update_description (body req ''description'') u1 = Next u2 \<and>
           update_status (body req ''status'') u2 = Next u \<and>
           updateTodo now req (params_id req) u s = Inr (d', s') \<and>
           r = \<lparr> code = 200, success = True, data = Some (Item d'),
                 message = Some ''Todo updated successfully'', count = None \<rparr>"
  using assms
  by (auto simp: updateTodoController_def Let_def failure_def dest: update_Return
      split: step.splits sum.splits prod.splits)

lemma updateTodo_valid:
  assumes auth: "caller req = Some uid"
    and t: "u ''title'' = None \<or>
            (\<exists>t. u ''title'' = Some (JStr t) \<and> trim t \<noteq> [] \<and> length t \<le> 255)"
    and d: "u ''description'' = None \<or>
            (\<exists>x. u ''description'' = Some (JStr x) \<and> length x \<le> 1000)"
    and st: "u ''status'' = None \<or>
             (\<exists>x. u ''status'' = Some (JStr x) \<and> x \<in> set todoStatusSchema)"
    and dates: "u ''createdAt'' = None" "u ''updatedAt'' = None"
  defines "v \<equiv> \<lparr> v_title = map_option trim (str_of (u ''title'')),
                  v_description = map_option trim (str_of (u ''description'')),
                  v_status = str_of (u ''status''), v_user = Some uid \<rparr>"
  shows "updateTodo now req i u s =
           (case find (matches i uid) (docs s) of
              None \<Rightarrow> Inl (Error ''Todo not found'')
            | Some x \<Rightarrow>
                Inr (apply_update v now x,
                     s\<lparr> docs := update_first (matches i uid) (apply_update v now) (docs s) \<rparr>))"
proof -
  from auth have uid: "uid \<noteq> []"
    by (auto simp: caller_def split: option.splits if_splits)
  have tne: "\<And>t. u ''title'' = Some (JStr t) \<Longrightarrow> t \<noteq> []"
    using t by (auto simp: trim_def)
  have p: "todoSchema_parse True (u(''user'' \<mapsto> JStr uid)) =
             Inr \<lparr> v_title = str_of (u ''title''), v_description = str_of (u ''description''),
                   v_status = str_of (u ''status''), v_user = Some uid \<rparr>"
    using t tne d st dates uid
    by (auto simp: todoSchema_parse_def title_issues_def description_issues_def
        status_issues_def user_issues_def date_issues_def)
  have as: "apply_setters \<lparr> v_title = str_of (u ''title''),
               v_description = str_of (u ''description''),
               v_status = str_of (u ''status''), v_user = Some uid \<rparr> = v"
    by (simp add: apply_setters_def v_def)
  have pe: "path_errors v = []"
  proof (rule path_errors_ok)
    fix x assume "v_title v = Some x"
    with t show "x \<noteq> [] \<and> length x \<le> 255"
      by (auto simp: v_def intro: le_trans [OF length_trim])
  next
    fix x assume "v_description v = Some x"
    with d show "length x \<le> 1000"
      by (auto simp: v_def intro: le_trans [OF length_trim])
  next
    fix x assume "v_status v = Some x"
    with st show "x \<in> set todoStatusSchema"
      by (auto simp: v_def)
  next
    fix x assume "v_user v = Some x"
    with uid show "x \<noteq> []"
      by (simp add: v_def)
  qed
  show ?thesis
    using auth
    by (simp add: updateTodo_def p Todo_findOneAndUpdate_def Let_def as pe split: option.splits)
qed

lemma trim_nonempty: "trim t \<noteq> [] \<Longrightarrow> t \<noteq> []"
  by (auto simp: trim_def)

lemma update_steps_ok:
  assumes "update_payload_ok b"
  shows "\<exists>u1 u2 u. update_title (b ''title'') Map.empty = Next u1 \<and>
           update_description (b ''description'') u1 = Next u2 \<and>
           update_status (b ''status'') u2 = Next u"
proof -
  have 1: "\<exists>u'. update_title (b ''title'') u = Next u'" for u
  proof (cases "b ''title''")
    case None
    then show ?thesis by (simp add: update_title_def)
  next
    case (Some j)
    with assms obtain t where j: "j = JStr t" and t: "trim t \<noteq> []"
      by (cases j) (auto simp: update_payload_ok_def)
    from t have "t \<noteq> []" by (rule trim_nonempty)
    with Some j t show ?thesis by (simp add: update_title_def)
  qed
  have 2: "\<exists>u'. update_description (b ''description'') u = Next u'" for u
    using assms
    by (cases "b ''description''" rule: opt_trim.cases)
       (auto simp: update_payload_ok_def description_ok_def update_description_def)
  have 3: "\<exists>u'. update_status (b ''status'') u = Next u'" for u
  proof (cases "b ''status''")
    case None
    then show ?thesis by (simp add: update_status_def)
  next
    case (Some j)
    with assms obtain st where j: "j = JStr st" and st: "st \<in> set todoStatusSchema"
      by (cases j) (auto simp: update_payload_ok_def)
    with Some show ?thesis by (auto simp: update_status_def todoStatusSchema_def)
  qed
  from 1 2 3 show ?thesis
    by metis
qed

text \<open>The fields a well-formed update body sets, after trimming.\<close>

lemma updateTodoController_valid:
  fixes now :: nat and req :: request and uid :: string
  assumes auth: "caller req = Some uid"
    and ok: "update_payload_ok (body req)"
  defines "v \<equiv> \<lparr> v_title = (case body req ''title'' of
                               Some (JStr t) \<Rightarrow> Some (trim t) | _ \<Rightarrow> None),
                  v_description = (case body req ''description'' of
                                     Some (JStr x) \<Rightarrow> Some (trim x) | _ \<Rightarrow> None),
                  v_status = (case body req ''status'' of
                                Some (JStr st) \<Rightarrow> Some st | _ \<Rightarrow> None),
                  v_user = Some uid \<rparr>"
  shows "updateTodoController now req s =
           (case find (matches (params_id req) uid) (docs s) of
              None \<Rightarrow> (failure 404 ''Todo not found'', s)
            | Some x \<Rightarrow>
                (\<lparr> code = 200, success = True, data = Some (Item (apply_update v now x)),
                   message = Some ''Todo updated successfully'', count = None \<rparr>,
                 s\<lparr> docs := update_first (matches (params_id req) uid)
                               (apply_update v now) (docs s) \<rparr>))"
proof -
  from update_steps_ok [OF ok] obtain u1 u2 u where
    st: "update_title (body req ''title'') Map.empty = Next u1"
      "update_description (body req ''description'') u1 = Next u2"
      "update_status (body req ''status'') u2 = Next u"
    by blast
  note u = update_steps [OF st]
  have v: "\<lparr> v_title = map_option trim (str_of (u ''title'')),
             v_description = map_option trim (str_of (u ''description'')),
             v_status = str_of (u ''status''), v_user = Some uid \<rparr> = v"
    by (auto simp: v_def u(1,2,3) trim_idem split: option.splits json.splits)
  have t: "u ''title'' = None \<or>
            (\<exists>t. u ''title'' = Some (JStr t) \<and> trim t \<noteq> [] \<and> length t \<le> 255)"
    using ok by (auto simp: u(1) update_payload_ok_def trim_idem split: option.splits json.splits)
  have d: "u ''description'' = None \<or>
            (\<exists>x. u ''description'' = Some (JStr x) \<and> length x \<le> 1000)"
    using ok
    by (auto simp: u(2) update_payload_ok_def description_ok_def split: option.splits json.splits)
  have s: "u ''status'' = None \<or>
             (\<exists>x. u ''status'' = Some (JStr x) \<and> x \<in> set todoStatusSchema)"
    using ok by (auto simp: u(3) update_payload_ok_def split: option.splits json.splits)
  note up = updateTodo_valid [OF auth t d s u(5,6), of now "params_id req", unfolded v]
  show ?thesis
    by (simp add: updateTodoController_def st up statusCode_def message_or_def failure_def
        split: option.splits)
qed

text \<open>
  C8, as amended. For an authenticated caller, an item of theirs with the given id, and
  an update that succeeds: the answer carries the updated item, which is what the store
  then holds under the id. Its id, owner and \<open>createdAt\<close> are unchanged and \<open>updatedAt\<close> is
  the time of the call. A title, description or status that the body supplies as a text
  replaces the stored one (title and description trimmed); one that the body does not
  have is unchanged; and a description supplied as \<open>null\<close> is unchanged as well. A
  successful update has no other kind of value in these fields. Every other item is
  untouched.
\<close>

theorem update_replaces_supplied_text:
  assumes auth: "caller req = Some uid"
    and found: "Todo_findOne (params_id req) uid s = Some d"
    and res: "updateTodoController now req s = (r, s')"
    and succ: "success r"
  shows "\<exists>d'. data r = Some (Item d') \<and> code r = 200 \<and>
           Todo_findOne (params_id req) uid s' = Some d' \<and>
           todo_id d' = todo_id d \<and> user d' = user d \<and> createdAt d' = createdAt d \<and>
           updatedAt d' = now \<and>
           (body req ''title'' = None \<and> title d' = title d \<or>
            (\<exists>t. body req ''title'' = Some (JStr t) \<and> title d' = trim t)) \<and>
           (body req ''description'' = None \<and> description d' = description d \<or>
            body req ''description'' = Some JNull \<and> description d' = description d \<or>
            (\<exists>x. body req ''description'' = Some (JStr x) \<and> description d' = Some (trim x))) \<and>
           (body req ''status'' = None \<and> status d' = status d \<or>
            (\<exists>st. body req ''status'' = Some (JStr st) \<and> status d' = st)) \<and>
           filter (\<lambda>x. \<not> matches (params_id req) uid x) (docs s') =
             filter (\<lambda>x. \<not> matches (params_id req) uid x) (docs s) \<and>
           length (docs s') = length (docs s)"
proof -
  from updateTodoController_success [OF res succ]
  obtain u1 u2 u d' where
    st: "update_title (body req ''title'') Map.empty = Next u1"
      "update_description (body req ''description'') u1 = Next u2"
      "update_status (body req ''status'') u2 = Next u"
    and up: "updateTodo now req (params_id req) u s = Inr (d', s')"
    and r: "r = \<lparr> code = 200, success = True, data = Some (Item d'),
                 message = Some ''Todo updated successfully'', count = None \<rparr>"
    by blast
  note u = update_steps [OF st]
  define v where "v = \<lparr> v_title = map_option trim (str_of (u ''title'')),
                  v_description = map_option trim (str_of (u ''description'')),
                  v_status = str_of (u ''status''), v_user = Some uid \<rparr>"
  from found have f: "find (matches (params_id req) uid) (docs s) = Some d"
    by (simp add: Todo_findOne_def)
  note m = find_matches [OF f]
  from updateTodo_Inr [OF up auth f u(5)]
  have d': "d' = apply_update v now d"
    and s': "s' = s\<lparr> docs := update_first (matches (params_id req) uid)
                                 (apply_update v now) (docs s) \<rparr>"
    by (simp_all add: v_def)
  have keep: "\<And>x. matches (params_id req) uid x \<Longrightarrow>
                  matches (params_id req) uid (apply_update v now x)"
    by (simp add: matches_def apply_update_def v_def)
  have 1: "Todo_findOne (params_id req) uid s' = Some d'"
    using find_update_first [where f = "apply_update v now", OF f] keep m
    by (simp add: Todo_findOne_def s' d' matches_def)
  have 2: "todo_id d' = todo_id d \<and> user d' = user d \<and> createdAt d' = createdAt d \<and>
           updatedAt d' = now"
    using m by (simp add: d' apply_update_def v_def)
  have 3: "body req ''title'' = None \<and> title d' = title d \<or>
            (\<exists>t. body req ''title'' = Some (JStr t) \<and> title d' = trim t)"
    using u(7) by (auto simp: d' apply_update_def v_def u(1) trim_idem)
  have 4: "body req ''description'' = None \<and> description d' = description d \<or>
            body req ''description'' = Some JNull \<and> description d' = description d \<or>
            (\<exists>x. body req ''description'' = Some (JStr x) \<and> description d' = Some (trim x))"
    using update_description_Next [OF st(2)]
    by (auto simp: d' apply_update_def v_def u(2) trim_idem)
  have 5: "body req ''status'' = None \<and> status d' = status d \<or>
            (\<exists>st. body req ''status'' = Some (JStr st) \<and> status d' = st)"
    using u(8) by (auto simp: d' apply_update_def v_def u(3))
  have 6: "filter (\<lambda>x. \<not> matches (params_id req) uid x) (docs s') =
             filter (\<lambda>x. \<not> matches (params_id req) uid x) (docs s)"
    using others_update_first [of "matches (params_id req) uid" "apply_update v now" "docs s"] keep
    by (simp add: s')
  have 7: "length (docs s') = length (docs s)"
    by (simp add: s' length_update_first)
  from r 1 2 3 4 5 6 7 show ?thesis
    by simp
qed

theorem update_replaces_supplied_text_witness:
  "Todo_findOne 0 ''bob'' \<lparr> docs = [\<lparr> todo_id = 0, title = ''x'', description = Some ''old'', status = ''pending'',
       user = ''bob'', createdAt = 5, updatedAt = 5 \<rparr>], next_id = 1 \<rparr> = Some \<lparr> todo_id = 0, title = ''x'', description = Some ''old'', status = ''pending'',
       user = ''bob'', createdAt = 5, updatedAt = 5 \<rparr> \<and>
   success (fst (updateTodoController 9 \<lparr> user_id = Some ''bob'', body = map_of [(''title'', JStr '' New ''), (''description'', JStr '' note ''),
          (''status'', JStr ''completed'')], params_id = 0,
       req_query = \<lparr> q_status = None, q_limit = None, q_skip = None \<rparr> \<rparr> \<lparr> docs = [\<lparr> todo_id = 0, title = ''x'', description = Some ''old'', status = ''pending'',
       user = ''bob'', createdAt = 5, updatedAt = 5 \<rparr>], next_id = 1 \<rparr>)) \<and>
   data (fst (updateTodoController 9 \<lparr> user_id = Some ''bob'', body = map_of [(''title'', JStr '' New ''), (''description'', JStr '' note ''),
          (''status'', JStr ''completed'')], params_id = 0,
       req_query = \<lparr> q_status = None, q_limit = None, q_skip = None \<rparr> \<rparr> \<lparr> docs = [\<lparr> todo_id = 0, title = ''x'', description = Some ''old'', status = ''pending'',
       user = ''bob'', createdAt = 5, updatedAt = 5 \<rparr>], next_id = 1 \<rparr>)) =
     Some (Item (\<lparr> todo_id = 0, title = ''x'', description = Some ''old'', status = ''pending'',
       user = ''bob'', createdAt = 5, updatedAt = 5 \<rparr>\<lparr> title := ''New'', description := Some ''note'',
                       status := ''completed'', updatedAt := 9 \<rparr>))"
proof -
  have auth: "caller \<lparr> user_id = Some ''bob'', body = map_of [(''title'', JStr '' New ''), (''description'', JStr '' note ''),
          (''status'', JStr ''completed'')], params_id = 0,
       req_query = \<lparr> q_status = None, q_limit = None, q_skip = None \<rparr> \<rparr> = Some ''bob''"
    by (simp add: caller_def)
  have f: "Todo_findOne 0 ''bob'' \<lparr> docs = [\<lparr> todo_id = 0, title = ''x'', description = Some ''old'', status = ''pending'',
       user = ''bob'', createdAt = 5, updatedAt = 5 \<rparr>], next_id = 1 \<rparr> = Some \<lparr> todo_id = 0, title = ''x'', description = Some ''old'', status = ''pending'',
       user = ''bob'', createdAt = 5, updatedAt = 5 \<rparr>"
    by (simp add: Todo_findOne_def matches_def)
  have t: "trim '' New '' = ''New''" "trim '' note '' = ''note''"
    by (simp_all add: trim_def is_space_def)
  have ok: "update_payload_ok (body \<lparr> user_id = Some ''bob'', body = map_of [(''title'', JStr '' New ''), (''description'', JStr '' note ''),
          (''status'', JStr ''completed'')], params_id = 0,
       req_query = \<lparr> q_status = None, q_limit = None, q_skip = None \<rparr> \<rparr>)"
    by (simp add: update_payload_ok_def description_ok_def t todoStatusSchema_def)
  have s: "success (fst (updateTodoController 9 \<lparr> user_id = Some ''bob'', body = map_of [(''title'', JStr '' New ''), (''description'', JStr '' note ''),
          (''status'', JStr ''completed'')], params_id = 0,
       req_query = \<lparr> q_status = None, q_limit = None, q_skip = None \<rparr> \<rparr> \<lparr> docs = [\<lparr> todo_id = 0, title = ''x'', description = Some ''old'', status = ''pending'',
       user = ''bob'', createdAt = 5, updatedAt = 5 \<rparr>], next_id = 1 \<rparr>))"
    using updateTodoController_valid [OF auth ok, of 9 "\<lparr> docs = [\<lparr> todo_id = 0, title = ''x'', description = Some ''old'', status = ''pending'',
       user = ''bob'', createdAt = 5, updatedAt = 5 \<rparr>], next_id = 1 \<rparr>"]
    by (simp add: matches_def)
  from update_replaces_supplied_text [OF auth, of "\<lparr> docs = [\<lparr> todo_id = 0, title = ''x'', description = Some ''old'', status = ''pending'',
       user = ''bob'', createdAt = 5, updatedAt = 5 \<rparr>], next_id = 1 \<rparr>" "\<lparr> todo_id = 0, title = ''x'', description = Some ''old'', status = ''pending'',
       user = ''bob'', createdAt = 5, updatedAt = 5 \<rparr>" 9
      "fst (updateTodoController 9 \<lparr> user_id = Some ''bob'', body = map_of [(''title'', JStr '' New ''), (''description'', JStr '' note ''),
          (''status'', JStr ''completed'')], params_id = 0,
       req_query = \<lparr> q_status = None, q_limit = None, q_skip = None \<rparr> \<rparr> \<lparr> docs = [\<lparr> todo_id = 0, title = ''x'', description = Some ''old'', status = ''pending'',
       user = ''bob'', createdAt = 5, updatedAt = 5 \<rparr>], next_id = 1 \<rparr>)" "snd (updateTodoController 9 \<lparr> user_id = Some ''bob'', body = map_of [(''title'', JStr '' New ''), (''description'', JStr '' note ''),
          (''status'', JStr ''completed'')], params_id = 0,
       req_query = \<lparr> q_status = None, q_limit = None, q_skip = None \<rparr> \<rparr> \<lparr> docs = [\<lparr> todo_id = 0, title = ''x'', description = Some ''old'', status = ''pending'',
       user = ''bob'', createdAt = 5, updatedAt = 5 \<rparr>], next_id = 1 \<rparr>)"] f s
  obtain d' where "data (fst (updateTodoController 9 \<lparr> user_id = Some ''bob'', body = map_of [(''title'', JStr '' New ''), (''description'', JStr '' note ''),
          (''status'', JStr ''completed'')], params_id = 0,
       req_query = \<lparr> q_status = None, q_limit = None, q_skip = None \<rparr> \<rparr> \<lparr> docs = [\<lparr> todo_id = 0, title = ''x'', description = Some ''old'', status = ''pending'',
       user = ''bob'', createdAt = 5, updatedAt = 5 \<rparr>], next_id = 1 \<rparr>)) = Some (Item d')"
    and "todo_id d' = 0" "user d' = ''bob''" "createdAt d' = 5" "updatedAt d' = 9"
    "title d' = ''New''" "description d' = Some ''note''" "status d' = ''completed''"
    by (auto simp: t)
  then have "data (fst (updateTodoController 9 \<lparr> user_id = Some ''bob'', body = map_of [(''title'', JStr '' New ''), (''description'', JStr '' note ''),
          (''status'', JStr ''completed'')], params_id = 0,
       req_query = \<lparr> q_status = None, q_limit = None, q_skip = None \<rparr> \<rparr> \<lparr> docs = [\<lparr> todo_id = 0, title = ''x'', description = Some ''old'', status = ''pending'',
       user = ''bob'', createdAt = 5, updatedAt = 5 \<rparr>], next_id = 1 \<rparr>)) =
     Some (Item (\<lparr> todo_id = 0, title = ''x'', description = Some ''old'', status = ''pending'',
       user = ''bob'', createdAt = 5, updatedAt = 5 \<rparr>\<lparr> title := ''New'', description := Some ''note'',
                       status := ''completed'', updatedAt := 9 \<rparr>))"
    by (cases d') simp
  with f s show ?thesis
    by simp
qed

text \<open>
  An update whose body supplies \<open>description: null\<close> succeeds, and the stored description
  stays as it was.
\<close>

theorem update_null_description_counterexample:
  "body \<lparr> user_id = Some ''bob'', body = map_of [(''description'', JNull)], params_id = 0,
       req_query = \<lparr> q_status = None, q_limit = None, q_skip = None \<rparr> \<rparr> ''description'' = Some JNull \<and>
   fst (updateTodoController 9 \<lparr> user_id = Some ''bob'', body = map_of [(''description'', JNull)], params_id = 0,
       req_query = \<lparr> q_status = None, q_limit = None, q_skip = None \<rparr> \<rparr> \<lparr> docs = [\<lparr> todo_id = 0, title = ''x'', description = Some ''old'', status = ''pending'',
       user = ''bob'', createdAt = 5, updatedAt = 5 \<rparr>], next_id = 1 \<rparr>) =
     \<lparr> code = 200, success = True, data = Some (Item (\<lparr> todo_id = 0, title = ''x'', description = Some ''old'', status = ''pending'',
       user = ''bob'', createdAt = 5, updatedAt = 5 \<rparr>\<lparr> updatedAt := 9 \<rparr>)),
       message = Some ''Todo updated successfully'', count = None \<rparr> \<and>
   map description (docs (snd (updateTodoController 9 \<lparr> user_id = Some ''bob'', body = map_of [(''description'', JNull)], params_id = 0,
       req_query = \<lparr> q_status = None, q_limit = None, q_skip = None \<rparr> \<rparr> \<lparr> docs = [\<lparr> todo_id = 0, title = ''x'', description = Some ''old'', status = ''pending'',
       user = ''bob'', createdAt = 5, updatedAt = 5 \<rparr>], next_id = 1 \<rparr>))) = [Some ''old'']"
proof -
  have auth: "caller \<lparr> user_id = Some ''bob'', body = map_of [(''description'', JNull)], params_id = 0,
       req_query = \<lparr> q_status = None, q_limit = None, q_skip = None \<rparr> \<rparr> = Some ''bob''"
    by (simp add: caller_def)
  have ok: "update_payload_ok (body \<lparr> user_id = Some ''bob'', body = map_of [(''description'', JNull)], params_id = 0,
       req_query = \<lparr> q_status = None, q_limit = None, q_skip = None \<rparr> \<rparr>)"
    by (simp add: update_payload_ok_def description_ok_def)
  from updateTodoController_valid [OF auth ok, of 9 "\<lparr> docs = [\<lparr> todo_id = 0, title = ''x'', description = Some ''old'', status = ''pending'',
       user = ''bob'', createdAt = 5, updatedAt = 5 \<rparr>], next_id = 1 \<rparr>"]
  show ?thesis
    by (simp add: matches_def apply_update_def)
qed

section \<open>Owner scoping\<close>

lemma nomatch_get:
  assumes "caller req = Some a" and "find (matches (params_id req) a) (docs s) = None"
  shows "getTodoController req s = failure 404 ''Todo not found''"
  using assms
  by (simp add: getTodoController_def getTodo_def Todo_findOne_def statusCode_def message_or_def)

lemma nomatch_delete:
  assumes "caller req = Some a" and "find (matches (params_id req) a) (docs s) = None"
  shows "deleteTodoController req s = (failure 404 ''Todo not found'', s)"
  using assms
  by (simp add: deleteTodoController_def deleteTodo_def Todo_deleteOne_def find_None_iff
      statusCode_def message_or_def)

lemma nomatch_toggle:
  assumes "caller req = Some a" and "find (matches (params_id req) a) (docs s) = None"
  shows "toggleTodoStatusController now req s = (failure 404 ''Todo not found'', s)"
  using assms
  by (simp add: toggleTodoStatusController_def toggleTodoStatus_def Todo_findOne_def
      statusCode_def message_or_def)

lemma nomatch_update:
  assumes auth: "caller req = Some a"
    and nm: "find (matches (params_id req) a) (docs s) = None"
  shows "\<exists>r. updateTodoController now req s = (r, s) \<and>
             (\<forall>s'. find (matches (params_id req) a) (docs s') = None \<longrightarrow>
                   updateTodoController now req s' = (r, s'))"
proof (cases "update_title (body req ''title'') Map.empty")
  case (Return r)
  then show ?thesis by (simp add: updateTodoController_def)
next
  case (Throw e)
  then show ?thesis by (simp add: updateTodoController_def)
next
  case 1: (Next u1)
  show ?thesis
  proof (cases "update_description (body req ''description'') u1")
    case (Return r)
    with 1 show ?thesis by (simp add: updateTodoController_def)
  next
    case (Throw e)
    with 1 show ?thesis by (simp add: updateTodoController_def)
  next
    case 2: (Next u2)
    show ?thesis
    proof (cases "update_status (body req ''status'') u2")
      case (Return r)
      with 1 2 show ?thesis by (simp add: updateTodoController_def)
    next
      case (Throw e)
      with 1 2 show ?thesis by (simp add: updateTodoController_def)
    next
      case 3: (Next u)
      from updateTodo_nomatch [OF nm auth, of now u]
      obtain e where e: "updateTodo now req (params_id req) u s = Inl e"
        and e': "\<And>s'. find (matches (params_id req) a) (docs s') = None \<Longrightarrow>
               updateTodo now req (params_id req) u s' = Inl e"
        by blast
      show ?thesis
        by (rule exI [of _ "failure (statusCode e) (message_or e ''Failed to update todo'')"])
           (simp add: updateTodoController_def 1 2 3 e e')
    qed
  qed
qed

lemma other_owner_nomatch:
  assumes d: "d \<in> set xs" and i: "todo_id d = i" and a: "user d \<noteq> a"
    and dist: "distinct (map todo_id xs)"
  shows "find (matches i a) xs = None"
proof -
  from dist have inj: "inj_on todo_id (set xs)"
    by (simp add: distinct_map)
  have "\<not> matches i a x" if x: "x \<in> set xs" for x
  proof
    assume m: "matches i a x"
    then have "todo_id x = todo_id d"
      using i by (simp add: matches_def)
    from inj_onD [OF inj this x d] have "x = d" .
    with m a show False
      by (simp add: matches_def)
  qed
  then show ?thesis
    by (simp add: find_None_iff)
qed

lemma absent_nomatch:
  assumes "i \<notin> todo_id ` set xs"
  shows "find (matches i a) xs = None"
  using assms by (auto simp: find_None_iff matches_def)

text \<open>
  C3, as amended. Caller A asks for an id whose item belongs to somebody else, in a store
  where ids are unique; compare a store that has no item with that id. Get, Delete and
  Toggle answer 404 with \<open>Todo not found\<close> in both stores and change nothing. Update
  answers the same in both stores and changes nothing; its answer is 404 with
  \<open>Todo not found\<close> whenever the body passes validation (a body that does not is turned
  down before the store is consulted, with the same answer in both stores).
\<close>

theorem other_owner_like_absent:
  assumes auth: "caller req = Some a"
    and d: "d \<in> set (docs s)" "todo_id d = params_id req" "user d \<noteq> a"
    and uniq: "distinct (map todo_id (docs s))"
    and absent: "params_id req \<notin> todo_id ` set (docs s')"
  shows "getTodoController req s = failure 404 ''Todo not found'' \<and>
         getTodoController req s' = getTodoController req s \<and>
         deleteTodoController req s = (failure 404 ''Todo not found'', s) \<and>
         fst (deleteTodoController req s') = fst (deleteTodoController req s) \<and>
         snd (deleteTodoController req s') = s' \<and>
         toggleTodoStatusController now req s = (failure 404 ''Todo not found'', s) \<and>
         fst (toggleTodoStatusController now req s') =
           fst (toggleTodoStatusController now req s) \<and>
         snd (toggleTodoStatusController now req s') = s' \<and>
         fst (updateTodoController now req s') = fst (updateTodoController now req s) \<and>
         snd (updateTodoController now req s) = s \<and>
         snd (updateTodoController now req s') = s' \<and>
         (update_payload_ok (body req) \<longrightarrow>
            fst (updateTodoController now req s) = failure 404 ''Todo not found'')"
proof -
  note nm = other_owner_nomatch [OF d uniq]
  note nm' = absent_nomatch [OF absent, of a]
  from nomatch_update [OF auth nm, of now] nm'
  obtain r where u: "updateTodoController now req s = (r, s)"
    and u': "updateTodoController now req s' = (r, s')"
    by blast
  have v: "update_payload_ok (body req) \<longrightarrow>
            fst (updateTodoController now req s) = failure 404 ''Todo not found''"
  proof
    assume ok: "update_payload_ok (body req)"
    show "fst (updateTodoController now req s) = failure 404 ''Todo not found''"
      by (simp add: updateTodoController_valid [OF auth ok] nm)
  qed
  note g = nomatch_get [OF auth nm] and g' = nomatch_get [OF auth nm']
    and dl = nomatch_delete [OF auth nm] and dl' = nomatch_delete [OF auth nm']
    and tg = nomatch_toggle [OF auth nm, of now] and tg' = nomatch_toggle [OF auth nm', of now]
  show ?thesis
    unfolding g g' dl dl' tg tg' u u' fst_conv snd_conv
    using v [unfolded u fst_conv] by simp
qed

theorem other_owner_like_absent_witness:
  "getTodoController \<lparr> user_id = Some ''alice'', body = map_of [(''title'', JStr ''y'')], params_id = 0,
       req_query = \<lparr> q_status = None, q_limit = None, q_skip = None \<rparr> \<rparr> \<lparr> docs = [\<lparr> todo_id = 0, title = ''x'', description = Some ''old'', status = ''pending'',
       user = ''bob'', createdAt = 5, updatedAt = 5 \<rparr>], next_id = 1 \<rparr> = failure 404 ''Todo not found'' \<and>
   getTodoController \<lparr> user_id = Some ''alice'', body = map_of [(''title'', JStr ''y'')], params_id = 0,
       req_query = \<lparr> q_status = None, q_limit = None, q_skip = None \<rparr> \<rparr> \<lparr> docs = [], next_id = 0 \<rparr> = failure 404 ''Todo not found'' \<and>
   deleteTodoController \<lparr> user_id = Some ''alice'', body = map_of [(''title'', JStr ''y'')], params_id = 0,
       req_query = \<lparr> q_status = None, q_limit = None, q_skip = None \<rparr> \<rparr> \<lparr> docs = [\<lparr> todo_id = 0, title = ''x'', description = Some ''old'', status = ''pending'',
       user = ''bob'', createdAt = 5, updatedAt = 5 \<rparr>], next_id = 1 \<rparr> = (failure 404 ''Todo not found'', \<lparr> docs = [\<lparr> todo_id = 0, title = ''x'', description = Some ''old'', status = ''pending'',
       user = ''bob'', createdAt = 5, updatedAt = 5 \<rparr>], next_id = 1 \<rparr>) \<and>
   toggleTodoStatusController 9 \<lparr> user_id = Some ''alice'', body = map_of [(''title'', JStr ''y'')], params_id = 0,
       req_query = \<lparr> q_status = None, q_limit = None, q_skip = None \<rparr> \<rparr> \<lparr> docs = [\<lparr> todo_id = 0, title = ''x'', description = Some ''old'', status = ''pending'',
       user = ''bob'', createdAt = 5, updatedAt = 5 \<rparr>], next_id = 1 \<rparr> = (failure 404 ''Todo not found'', \<lparr> docs = [\<lparr> todo_id = 0, title = ''x'', description = Some ''old'', status = ''pending'',
       user = ''bob'', createdAt = 5, updatedAt = 5 \<rparr>], next_id = 1 \<rparr>) \<and>
   updateTodoController 9 \<lparr> user_id = Some ''alice'', body = map_of [(''title'', JStr ''y'')], params_id = 0,
       req_query = \<lparr> q_status = None, q_limit = None, q_skip = None \<rparr> \<rparr> \<lparr> docs = [\<lparr> todo_id = 0, title = ''x'', description = Some ''old'', status = ''pending'',
       user = ''bob'', createdAt = 5, updatedAt = 5 \<rparr>], next_id = 1 \<rparr> = (failure 404 ''Todo not found'', \<lparr> docs = [\<lparr> todo_id = 0, title = ''x'', description = Some ''old'', status = ''pending'',
       user = ''bob'', createdAt = 5, updatedAt = 5 \<rparr>], next_id = 1 \<rparr>) \<and>
   updateTodoController 9 \<lparr> user_id = Some ''alice'', body = map_of [(''title'', JStr ''y'')], params_id = 0,
       req_query = \<lparr> q_status = None, q_limit = None, q_skip = None \<rparr> \<rparr> \<lparr> docs = [], next_id = 0 \<rparr> = (failure 404 ''Todo not found'', \<lparr> docs = [], next_id = 0 \<rparr>)"
proof -
  have auth: "caller \<lparr> user_id = Some ''alice'', body = map_of [(''title'', JStr ''y'')], params_id = 0,
       req_query = \<lparr> q_status = None, q_limit = None, q_skip = None \<rparr> \<rparr> = Some ''alice''"
    by (simp add: caller_def)
  have t: "trim ''y'' = ''y''"
    by (rule trim_no_space) (simp add: is_space_def)
  have ok: "update_payload_ok (body \<lparr> user_id = Some ''alice'', body = map_of [(''title'', JStr ''y'')], params_id = 0,
       req_query = \<lparr> q_status = None, q_limit = None, q_skip = None \<rparr> \<rparr>)"
    by (simp add: update_payload_ok_def description_ok_def t)
  from other_owner_like_absent [OF auth, of "\<lparr> todo_id = 0, title = ''x'', description = Some ''old'', status = ''pending'',
       user = ''bob'', createdAt = 5, updatedAt = 5 \<rparr>" "\<lparr> docs = [\<lparr> todo_id = 0, title = ''x'', description = Some ''old'', status = ''pending'',
       user = ''bob'', createdAt = 5, updatedAt = 5 \<rparr>], next_id = 1 \<rparr>" "\<lparr> docs = [], next_id = 0 \<rparr>" 9] ok
  show ?thesis
    by (simp add: prod_eq_iff)
qed

text \<open>
  An update with a blank title on an item of another owner is answered 400, not 404, and
  so is the same update on an id that does not exist.
\<close>

theorem update_blank_title_counterexample:
  "user \<lparr> todo_id = 0, title = ''x'', description = Some ''old'', status = ''pending'',
       user = ''bob'', createdAt = 5, updatedAt = 5 \<rparr> = ''bob'' \<and>
   fst (updateTodoController 9 \<lparr> user_id = Some ''alice'', body = map_of [(''title'', JStr '' '')], params_id = 0,
       req_query = \<lparr> q_status = None, q_limit = None, q_skip = None \<rparr> \<rparr> \<lparr> docs = [\<lparr> todo_id = 0, title = ''x'', description = Some ''old'', status = ''pending'',
       user = ''bob'', createdAt = 5, updatedAt = 5 \<rparr>], next_id = 1 \<rparr>) = failure 400 ''Title cannot be empty'' \<and>
   fst (updateTodoController 9 \<lparr> user_id = Some ''alice'', body = map_of [(''title'', JStr '' '')], params_id = 0,
       req_query = \<lparr> q_status = None, q_limit = None, q_skip = None \<rparr> \<rparr> \<lparr> docs = [], next_id = 0 \<rparr>) = failure 400 ''Title cannot be empty'' \<and>
   code (fst (updateTodoController 9 \<lparr> user_id = Some ''alice'', body = map_of [(''title'', JStr '' '')], params_id = 0,
       req_query = \<lparr> q_status = None, q_limit = None, q_skip = None \<rparr> \<rparr> \<lparr> docs = [\<lparr> todo_id = 0, title = ''x'', description = Some ''old'', status = ''pending'',
       user = ''bob'', createdAt = 5, updatedAt = 5 \<rparr>], next_id = 1 \<rparr>)) \<noteq> 404"
  by (simp add: updateTodoController_def update_title_def trim_def is_space_def failure_def)

section \<open>Status invariant\<close>

lemma set_update_first: "set (update_first P f xs) \<subseteq> set xs \<union> f ` {x \<in> set xs. P x}"
  by (induction xs) auto

lemma set_remove_first: "set (remove_first P xs) \<subseteq> set xs"
  by (induction xs) auto

lemma findOneAndUpdate_statuses:
  assumes inv: "statuses_valid s"
    and r: "Todo_findOneAndUpdate i uid v now s = Inr (res, s')"
  shows "statuses_valid s'"
proof (cases "find (matches i uid) (docs s)")
  case None
  with r have "s' = s"
    by (auto simp: Todo_findOneAndUpdate_def Let_def split: if_splits)
  with inv show ?thesis by simp
next
  case (Some d)
  define w where "w = apply_setters v"
  from r Some have pe: "path_errors w = []"
    and s': "s' = s\<lparr> docs := update_first (matches i uid) (apply_update w now) (docs s) \<rparr>"
    by (auto simp: Todo_findOneAndUpdate_def Let_def w_def split: if_splits)
  have st: "st \<in> set todoStatusSchema" if "v_status w = Some st" for st
    using pe that
    by (auto simp: path_errors_def todoStatusSchema_def split: option.splits if_splits)
  have "status (apply_update w now x) \<in> set todoStatusSchema"
    if "status x \<in> set todoStatusSchema" for x
    using that st by (cases "v_status w") (auto simp: apply_update_def)
  with inv set_update_first [of "matches i uid" "apply_update w now" "docs s"]
  show ?thesis
    unfolding statuses_valid_def s' by auto
qed

lemma createTodo_statuses:
  assumes inv: "statuses_valid s"
    and r: "createTodo now req todoData s = Inr (d, s')"
  shows "statuses_valid s'"
proof -
  from r obtain uid v where
    p: "todoSchema_parse False
          (todoData(''user'' \<mapsto> JStr uid,
                    ''status'' \<mapsto> or_else (todoData ''status'') (JStr ''pending''))) = Inr v"
    and sv: "Todo_save now v s = Inr (d, s')"
    by (auto simp: createTodo_def split: option.splits sum.splits)
  from sv have pe: "path_errors (apply_setters v) = []"
    and d: "status d = (case v_status (apply_setters v) of None \<Rightarrow> ''pending'' | Some st \<Rightarrow> st)"
    and s': "docs s' = docs s @ [d]"
    by (auto simp: Todo_save_def Let_def split: if_splits option.splits)
  from pe have "status d \<in> set todoStatusSchema"
    unfolding d
    by (auto simp: path_errors_def todoStatusSchema_def split: option.splits if_splits)
  with inv s' show ?thesis
    by (auto simp: statuses_valid_def)
qed

lemma apply_operation_statuses:
  assumes "statuses_valid s"
  shows "statuses_valid (apply_operation x s)"
proof (cases x)
  case (Create now req todoData)
  with assms show ?thesis
    by (auto split: sum.splits dest: createTodo_statuses)
next
  case (Update now req i u)
  show ?thesis
  proof (cases "updateTodo now req i u s")
    case (Inl e)
    with Update assms show ?thesis by simp
  next
    case (Inr p)
    then obtain d s' where p: "p = (d, s')" by (cases p)
    with Inr obtain uid v where "Todo_findOneAndUpdate i uid v now s = Inr (Some d, s')"
      by (auto simp: updateTodo_def split: option.splits sum.splits)
    from findOneAndUpdate_statuses [OF assms this] Update Inr p show ?thesis
      by simp
  qed
next
  case (Toggle now req i)
  show ?thesis
  proof (cases "toggleTodoStatus now req i s")
    case (Inl e)
    with Toggle assms show ?thesis by simp
  next
    case (Inr p)
    then obtain d s' where p: "p = (d, s')" by (cases p)
    with Inr obtain uid v where "Todo_findOneAndUpdate i uid v now s = Inr (d, s')"
      by (auto simp: toggleTodoStatus_def split: option.splits)
    from findOneAndUpdate_statuses [OF assms this] Toggle Inr p show ?thesis
      by simp
  qed
next
  case (Delete req i)
  from assms set_remove_first have "statuses_valid (s\<lparr> docs := remove_first P (docs s) \<rparr>)" for P
    by (fastforce simp: statuses_valid_def)
  with Delete assms show ?thesis
    by (auto simp: deleteTodo_def Todo_deleteOne_def split: option.splits if_splits)
qed

lemma run_statuses: "statuses_valid s \<Longrightarrow> statuses_valid (run ops s)"
  by (induction ops arbitrary: s) (auto intro: apply_operation_statuses)

lemma updateTodoController_store:
  "snd (updateTodoController now req s) = s \<or>
   (\<exists>u. snd (updateTodoController now req s) =
          apply_operation (Update now req (params_id req) u) s)"
proof (cases "update_title (body req ''title'') Map.empty")
  case (Return r)
  then show ?thesis by (simp add: updateTodoController_def)
next
  case (Throw e)
  then show ?thesis by (simp add: updateTodoController_def)
next
  case 1: (Next u1)
  show ?thesis
  proof (cases "update_description (body req ''description'') u1")
    case (Return r)
    with 1 show ?thesis by (simp add: updateTodoController_def)
  next
    case (Throw e)
    with 1 show ?thesis by (simp add: updateTodoController_def)
  next
    case 2: (Next u2)
    show ?thesis
    proof (cases "update_status (body req ''status'') u2")
      case (Return r)
      with 1 2 show ?thesis by (simp add: updateTodoController_def)
    next
      case (Throw e)
      with 1 2 show ?thesis by (simp add: updateTodoController_def)
    next
      case 3: (Next u)
      have "snd (updateTodoController now req s) =
              apply_operation (Update now req (params_id req) u) s"
        by (simp add: updateTodoController_def 1 2 3 split: sum.splits prod.splits)
      then show ?thesis by blast
    qed
  qed
qed

lemma handlers_preserve_statuses:
  assumes "statuses_valid s"
  shows "statuses_valid (snd (createTodoController now req s))"
    and "statuses_valid (snd (updateTodoController now req s))"
    and "statuses_valid (snd (toggleTodoStatusController now req s))"
    and "statuses_valid (snd (deleteTodoController req s))"
proof -
  from createTodoController_outcome [of now req s] assms
  show "statuses_valid (snd (createTodoController now req s))"
    by (auto dest: createTodo_statuses)
  from updateTodoController_store [of now req s] assms
  show "statuses_valid (snd (updateTodoController now req s))"
    by (auto simp only: apply_operation_statuses)
  have "snd (toggleTodoStatusController now req s) =
          apply_operation (Toggle now req (params_id req)) s"
    by (auto simp: toggleTodoStatusController_def split: sum.splits option.splits)
  with assms show "statuses_valid (snd (toggleTodoStatusController now req s))"
    by (simp only: apply_operation_statuses)
  have "snd (deleteTodoController req s) = apply_operation (Delete req (params_id req)) s"
    by (auto simp: deleteTodoController_def split: sum.splits)
  with assms show "statuses_valid (snd (deleteTodoController req s))"
    by (simp only: apply_operation_statuses)
qed

text \<open>
  C5. Start from the empty collection and run any sequence of Create, Update, Toggle and
  Delete operations, with any callers, ids, payloads and times: in the store that
  results, the status of every item is \<open>pending\<close>, \<open>in_progress\<close> or \<open>completed\<close>.
\<close>

theorem status_always_enumerated:
  "statuses_valid (run ops \<lparr> docs = [], next_id = n \<rparr>) \<and>
   (\<forall>d \<in> set (docs (run ops \<lparr> docs = [], next_id = n \<rparr>)).
      status d = ''pending'' \<or> status d = ''in_progress'' \<or> status d = ''completed'')"
proof -
  have "statuses_valid \<lparr> docs = [], next_id = n \<rparr>"
    by (simp add: statuses_valid_def)
  then have "statuses_valid (run ops \<lparr> docs = [], next_id = n \<rparr>)"
    by (rule run_statuses)
  then show ?thesis
    by (auto simp: statuses_valid_def todoStatusSchema_def)
qed

theorem status_always_enumerated_witness:
  "map status (docs (run
      [Create 1 \<lparr> user_id = Some ''alice'', body = map_of [], params_id = 0,
          req_query = \<lparr> q_status = None, q_limit = None, q_skip = None \<rparr> \<rparr> (map_of [(''title'', JStr ''a''), (''status'', JStr ''completed'')]),
       Toggle 2 \<lparr> user_id = Some ''alice'', body = map_of [], params_id = 0,
          req_query = \<lparr> q_status = None, q_limit = None, q_skip = None \<rparr> \<rparr> 0,
       Update 3 \<lparr> user_id = Some ''alice'', body = map_of [], params_id = 0,
          req_query = \<lparr> q_status = None, q_limit = None, q_skip = None \<rparr> \<rparr> 0 (map_of [(''status'', JStr ''done'')])]
      \<lparr> docs = [], next_id = 0 \<rparr>)) = [''pending''] \<and>
   statuses_valid (run
      [Create 1 \<lparr> user_id = Some ''alice'', body = map_of [], params_id = 0,
          req_query = \<lparr> q_status = None, q_limit = None, q_skip = None \<rparr> \<rparr> (map_of [(''title'', JStr ''a''), (''status'', JStr ''completed'')]),
       Toggle 2 \<lparr> user_id = Some ''alice'', body = map_of [], params_id = 0,
          req_query = \<lparr> q_status = None, q_limit = None, q_skip = None \<rparr> \<rparr> 0,
       Update 3 \<lparr> user_id = Some ''alice'', body = map_of [], params_id = 0,
          req_query = \<lparr> q_status = None, q_limit = None, q_skip = None \<rparr> \<rparr> 0 (map_of [(''status'', JStr ''done'')])]
      \<lparr> docs = [], next_id = 0 \<rparr>)"
proof -
  have "map status (docs (run
      [Create 1 \<lparr> user_id = Some ''alice'', body = map_of [], params_id = 0,
          req_query = \<lparr> q_status = None, q_limit = None, q_skip = None \<rparr> \<rparr> (map_of [(''title'', JStr ''a''), (''status'', JStr ''completed'')]),
       Toggle 2 \<lparr> user_id = Some ''alice'', body = map_of [], params_id = 0,
          req_query = \<lparr> q_status = None, q_limit = None, q_skip = None \<rparr> \<rparr> 0,
       Update 3 \<lparr> user_id = Some ''alice'', body = map_of [], params_id = 0,
          req_query = \<lparr> q_status = None, q_limit = None, q_skip = None \<rparr> \<rparr> 0 (map_of [(''status'', JStr ''done'')])]
      \<lparr> docs = [], next_id = 0 \<rparr>)) = [''pending'']"
    by code_simp
  with status_always_enumerated [of
      "[Create 1 \<lparr> user_id = Some ''alice'', body = map_of [], params_id = 0,
          req_query = \<lparr> q_status = None, q_limit = None, q_skip = None \<rparr> \<rparr> (map_of [(''title'', JStr ''a''), (''status'', JStr ''completed'')]),
       Toggle 2 \<lparr> user_id = Some ''alice'', body = map_of [], params_id = 0,
          req_query = \<lparr> q_status = None, q_limit = None, q_skip = None \<rparr> \<rparr> 0,
       Update 3 \<lparr> user_id = Some ''alice'', body = map_of [], params_id = 0,
          req_query = \<lparr> q_status = None, q_limit = None, q_skip = None \<rparr> \<rparr> 0 (map_of [(''status'', JStr ''done'')])]" 0]
  show ?thesis
    by simp
qed

section \<open>List\<close>

lemma set_insert_desc: "set (insert_desc d xs) = insert d (set xs)"
  by (induction xs) auto

lemma count_insert_desc: "count_list (insert_desc d xs) x = count_list (d # xs) x"
  by (induction xs) auto

lemma newest_first_insert_desc:
  "newest_first xs \<Longrightarrow> newest_first (insert_desc d xs)"
  unfolding newest_first_def
  by (induction xs) (auto simp: set_insert_desc)

lemma newest_first_sort_desc: "newest_first (sort_desc xs)"
  unfolding sort_desc_def
  by (induction xs) (simp_all add: newest_first_def newest_first_insert_desc [unfolded newest_first_def])

lemma count_sort_desc: "count_list (sort_desc xs) x = count_list xs x"
  unfolding sort_desc_def
  by (induction xs) (simp_all add: count_insert_desc)

lemma set_sort_desc: "set (sort_desc xs) = set xs"
  unfolding sort_desc_def
  by (induction xs) (simp_all add: set_insert_desc)

lemma length_insert_desc: "length (insert_desc d xs) = Suc (length xs)"
  by (induction xs) auto

lemma length_sort_desc: "length (sort_desc xs) = length xs"
  unfolding sort_desc_def
  by (induction xs) (simp_all add: length_insert_desc)

lemma newest_first_page:
  "newest_first xs \<Longrightarrow> newest_first (limit_docs l (drop k xs))"
  unfolding newest_first_def limit_docs_def
  by (simp add: sorted_wrt_drop sorted_wrt_take)

lemma set_page: "set (limit_docs l (drop k xs)) \<subseteq> set xs"
  unfolding limit_docs_def
  by (auto dest: in_set_takeD in_set_dropD)

lemma page_2_1:
  assumes "length xs = 5"
  shows "limit_docs 2 (drop 1 xs) = [xs ! 1, xs ! 2]"
proof -
  from assms obtain a b c d e where "xs = [a, b, c, d, e]"
    by (auto simp: length_Suc_conv eval_nat_numeral)
  then show ?thesis
    by (simp add: limit_docs_def)
qed

text \<open>
  C6, as amended. For an authenticated caller, with \<open>limit\<close> and \<open>skip\<close> read as natural
  numbers, the list is a page of a ranking of the caller's items (those that pass the
  status filter, when one applies): the ranking holds exactly these items, newest
  \<open>createdAt\<close> first, and the result skips \<open>skip\<close> (default 0) of it and then keeps the
  first \<open>limit\<close> (default 50) of what is left, except that a \<open>limit\<close> of 0 keeps all of
  it. Every item returned is the caller's and the result is newest first. With five
  items ranked, \<open>limit = 2\<close> and \<open>skip = 1\<close>, the result is the second and the third of
  the ranking. The handler answers 200 with this list and its length as \<open>count\<close>.
\<close>

theorem list_newest_first_paged:
  assumes auth: "caller req = Some uid"
  shows "\<exists>ranked result.
           (\<forall>x. count_list ranked x =
                 count_list (filter (\<lambda>d. user d = uid \<and>
                     (case status_filter (q_status q) of None \<Rightarrow> True | Some x \<Rightarrow> status d = x))
                   (docs s)) x) \<and>
           newest_first ranked \<and>
           getTodos req q s = Inr result \<and>
           result =
             (let l = (case q_limit q of None \<Rightarrow> 50 | Some l \<Rightarrow> l);
                  k = (case q_skip q of None \<Rightarrow> 0 | Some k \<Rightarrow> k)
              in if l = 0 then drop k ranked else take l (drop k ranked)) \<and>
           (\<forall>d \<in> set result. user d = uid) \<and>
           newest_first result \<and>
           (length ranked = 5 \<and> q_limit q = Some 2 \<and> q_skip q = Some 1 \<longrightarrow>
              result = [ranked ! 1, ranked ! 2]) \<and>
           (req_query req = q \<longrightarrow>
              getTodosController req s =
                \<lparr> code = 200, success = True, data = Some (Items result), message = None,
                  count = Some (length result) \<rparr>)"
proof -
  define mine where "mine = filter (\<lambda>d. user d = uid \<and>
      (case status_filter (q_status q) of None \<Rightarrow> True | Some x \<Rightarrow> status d = x)) (docs s)"
  define l where "l = (case q_limit q of None \<Rightarrow> 50 | Some l \<Rightarrow> l)"
  define k where "k = (case q_skip q of None \<Rightarrow> 0 | Some k \<Rightarrow> k)"
  define ranked where "ranked = sort_desc mine"
  define result where "result = limit_docs l (drop k ranked)"
  have 1: "\<forall>x. count_list ranked x = count_list mine x"
    by (simp add: ranked_def count_sort_desc)
  have 2: "newest_first ranked"
    by (simp add: ranked_def newest_first_sort_desc)
  have 3: "getTodos req q s = Inr result"
    using auth
    by (simp add: getTodos_def Todo_find_def Let_def result_def ranked_def mine_def l_def k_def)
  have 4: "result = (let l = (case q_limit q of None \<Rightarrow> 50 | Some l \<Rightarrow> l);
                  k = (case q_skip q of None \<Rightarrow> 0 | Some k \<Rightarrow> k)
              in if l = 0 then drop k ranked else take l (drop k ranked))"
    by (simp add: result_def limit_docs_def l_def k_def Let_def)
  have "set result \<subseteq> set mine"
    using set_page [of l k ranked] by (simp add: result_def ranked_def set_sort_desc)
  then have 5: "\<forall>d \<in> set result. user d = uid"
    by (auto simp: mine_def)
  have 6: "newest_first result"
    unfolding result_def using 2 by (rule newest_first_page)
  have 7: "length ranked = 5 \<and> q_limit q = Some 2 \<and> q_skip q = Some 1 \<longrightarrow>
              result = [ranked ! 1, ranked ! 2]"
    using page_2_1 [of ranked] by (auto simp: result_def l_def k_def)
  have 8: "req_query req = q \<longrightarrow>
              getTodosController req s =
                \<lparr> code = 200, success = True, data = Some (Items result), message = None,
                  count = Some (length result) \<rparr>"
    using 3 by (auto simp: getTodosController_def)
  from 1 2 3 4 5 6 7 8 show ?thesis
    unfolding mine_def by blast
qed

theorem list_newest_first_paged_witness:
  "getTodos \<lparr> user_id = Some ''alice'', body = map_of [], params_id = 0,
       req_query = \<lparr> q_status = None, q_limit = None, q_skip = None \<rparr> \<rparr> \<lparr> q_status = None, q_limit = Some 2, q_skip = Some 1 \<rparr> \<lparr> docs = [item_at 0 ''alice'' ''pending'' 10, item_at 1 ''alice'' ''pending'' 30,
                item_at 2 ''alice'' ''in_progress'' 20, item_at 3 ''alice'' ''pending'' 50,
                item_at 4 ''alice'' ''completed'' 40, item_at 5 ''bob'' ''pending'' 60],
       next_id = 6 \<rparr> =
     Inr [item_at 4 ''alice'' ''completed'' 40, item_at 1 ''alice'' ''pending'' 30] \<and>
   newest_first [item_at 4 ''alice'' ''completed'' 40, item_at 1 ''alice'' ''pending'' 30]"
proof -
  have auth: "caller \<lparr> user_id = Some ''alice'', body = map_of [], params_id = 0,
       req_query = \<lparr> q_status = None, q_limit = None, q_skip = None \<rparr> \<rparr> = Some ''alice''"
    by (simp add: caller_def)
  have r: "getTodos \<lparr> user_id = Some ''alice'', body = map_of [], params_id = 0,
       req_query = \<lparr> q_status = None, q_limit = None, q_skip = None \<rparr> \<rparr> \<lparr> q_status = None, q_limit = Some 2, q_skip = Some 1 \<rparr> \<lparr> docs = [item_at 0 ''alice'' ''pending'' 10, item_at 1 ''alice'' ''pending'' 30,
                item_at 2 ''alice'' ''in_progress'' 20, item_at 3 ''alice'' ''pending'' 50,
                item_at 4 ''alice'' ''completed'' 40, item_at 5 ''bob'' ''pending'' 60],
       next_id = 6 \<rparr> =
     Inr [item_at 4 ''alice'' ''completed'' 40, item_at 1 ''alice'' ''pending'' 30]"
    by code_simp
  from list_newest_first_paged [OF auth,
      of "\<lparr> q_status = None, q_limit = Some 2, q_skip = Some 1 \<rparr>" "\<lparr> docs = [item_at 0 ''alice'' ''pending'' 10, item_at 1 ''alice'' ''pending'' 30,
                item_at 2 ''alice'' ''in_progress'' 20, item_at 3 ''alice'' ''pending'' 50,
                item_at 4 ''alice'' ''completed'' 40, item_at 5 ''bob'' ''pending'' 60],
       next_id = 6 \<rparr>"] r
  show ?thesis
    by auto
qed

text \<open>
  With \<open>limit = 0\<close> and \<open>skip = 1\<close> against three items, the two items after the newest
  are returned, not the first 0 of them.
\<close>

theorem list_limit_zero_counterexample:
  "getTodos \<lparr> user_id = Some ''alice'', body = map_of [], params_id = 0,
       req_query = \<lparr> q_status = None, q_limit = None, q_skip = None \<rparr> \<rparr> \<lparr> q_status = None, q_limit = Some 0, q_skip = Some 1 \<rparr> \<lparr> docs = [item_at 0 ''alice'' ''pending'' 10, item_at 1 ''alice'' ''pending'' 30,
                item_at 2 ''alice'' ''pending'' 20], next_id = 3 \<rparr> =
     Inr [item_at 2 ''alice'' ''pending'' 20, item_at 0 ''alice'' ''pending'' 10] \<and>
   getTodos \<lparr> user_id = Some ''alice'', body = map_of [], params_id = 0,
       req_query = \<lparr> q_status = None, q_limit = None, q_skip = None \<rparr> \<rparr> \<lparr> q_status = None, q_limit = Some 0, q_skip = Some 1 \<rparr> \<lparr> docs = [item_at 0 ''alice'' ''pending'' 10, item_at 1 ''alice'' ''pending'' 30,
                item_at 2 ''alice'' ''pending'' 20], next_id = 3 \<rparr> \<noteq>
     Inr (take 0 (drop 1 (sort_desc (docs \<lparr> docs = [item_at 0 ''alice'' ''pending'' 10, item_at 1 ''alice'' ''pending'' 30,
                item_at 2 ''alice'' ''pending'' 20], next_id = 3 \<rparr>))))"
proof -
  have "getTodos \<lparr> user_id = Some ''alice'', body = map_of [], params_id = 0,
       req_query = \<lparr> q_status = None, q_limit = None, q_skip = None \<rparr> \<rparr> \<lparr> q_status = None, q_limit = Some 0, q_skip = Some 1 \<rparr> \<lparr> docs = [item_at 0 ''alice'' ''pending'' 10, item_at 1 ''alice'' ''pending'' 30,
                item_at 2 ''alice'' ''pending'' 20], next_id = 3 \<rparr> =
     Inr [item_at 2 ''alice'' ''pending'' 20, item_at 0 ''alice'' ''pending'' 10]"
    by code_simp
  then show ?thesis
    by simp
qed

lemma status_filter_invalid:
  assumes "v \<notin> JStr ` set todoStatusSchema"
  shows "status_filter (Some v) = None"
  using assms
  by (cases v) (auto simp: status_filter_def todoStatusSchema_def)

text \<open>
  C7. For an authenticated caller and a status filter that is present but is not one of
  the three strings, the list does not fail: it is the same as with no status filter,
  namely the page of all the caller's items, and the handler answers 200.
\<close>

theorem invalid_status_filter_ignored:
  assumes st: "q_status q = Some v"
    and bad: "v \<notin> JStr ` set todoStatusSchema"
    and auth: "caller req = Some uid"
  shows "getTodos req q s = getTodos req (q\<lparr> q_status := None \<rparr>) s \<and>
         getTodos req q s =
           Inr (limit_docs (case q_limit q of None \<Rightarrow> 50 | Some l \<Rightarrow> l)
                  (drop (case q_skip q of None \<Rightarrow> 0 | Some k \<Rightarrow> k)
                     (sort_desc (filter (\<lambda>d. user d = uid) (docs s))))) \<and>
         getTodosController (req\<lparr> req_query := q \<rparr>) s =
           getTodosController (req\<lparr> req_query := q\<lparr> q_status := None \<rparr> \<rparr>) s \<and>
         code (getTodosController (req\<lparr> req_query := q \<rparr>) s) = 200"
proof -
  have f: "status_filter (q_status q) = None"
    unfolding st using bad by (rule status_filter_invalid)
  have g: "status_filter None = None"
    by (simp add: status_filter_def)
  have c: "caller (req\<lparr> req_query := q' \<rparr>) = Some uid" for q'
    using auth by (simp add: caller_def)
  show ?thesis
    using auth
    by (simp add: getTodos_def getTodosController_def f g c Todo_find_def Let_def)
qed

theorem invalid_status_filter_ignored_witness:
  "getTodos \<lparr> user_id = Some ''alice'', body = map_of [], params_id = 0,
       req_query = \<lparr> q_status = None, q_limit = None, q_skip = None \<rparr> \<rparr> \<lparr> q_status = Some (JStr ''done''), q_limit = None, q_skip = None \<rparr> \<lparr> docs = [item_at 0 ''alice'' ''pending'' 10, item_at 1 ''alice'' ''pending'' 30,
                item_at 2 ''alice'' ''in_progress'' 20, item_at 3 ''alice'' ''pending'' 50,
                item_at 4 ''alice'' ''completed'' 40, item_at 5 ''bob'' ''pending'' 60],
       next_id = 6 \<rparr> =
     Inr [item_at 3 ''alice'' ''pending'' 50, item_at 4 ''alice'' ''completed'' 40,
          item_at 1 ''alice'' ''pending'' 30, item_at 2 ''alice'' ''in_progress'' 20,
          item_at 0 ''alice'' ''pending'' 10] \<and>
   getTodos \<lparr> user_id = Some ''alice'', body = map_of [], params_id = 0,
       req_query = \<lparr> q_status = None, q_limit = None, q_skip = None \<rparr> \<rparr> \<lparr> q_status = None, q_limit = None, q_skip = None \<rparr> \<lparr> docs = [item_at 0 ''alice'' ''pending'' 10, item_at 1 ''alice'' ''pending'' 30,
                item_at 2 ''alice'' ''in_progress'' 20, item_at 3 ''alice'' ''pending'' 50,
                item_at 4 ''alice'' ''completed'' 40, item_at 5 ''bob'' ''pending'' 60],
       next_id = 6 \<rparr> =
     getTodos \<lparr> user_id = Some ''alice'', body = map_of [], params_id = 0,
       req_query = \<lparr> q_status = None, q_limit = None, q_skip = None \<rparr> \<rparr> \<lparr> q_status = Some (JStr ''done''), q_limit = None, q_skip = None \<rparr> \<lparr> docs = [item_at 0 ''alice'' ''pending'' 10, item_at 1 ''alice'' ''pending'' 30,
                item_at 2 ''alice'' ''in_progress'' 20, item_at 3 ''alice'' ''pending'' 50,
                item_at 4 ''alice'' ''completed'' 40, item_at 5 ''bob'' ''pending'' 60],
       next_id = 6 \<rparr>"
proof -
  have auth: "caller \<lparr> user_id = Some ''alice'', body = map_of [], params_id = 0,
       req_query = \<lparr> q_status = None, q_limit = None, q_skip = None \<rparr> \<rparr> = Some ''alice''"
    by (simp add: caller_def)
  have bad: "JStr ''done'' \<notin> JStr ` set todoStatusSchema"
    by (simp add: todoStatusSchema_def)
  have st: "q_status \<lparr> q_status = Some (JStr ''done''), q_limit = None, q_skip = None \<rparr> =
      Some (JStr ''done'')"
    by simp
  have r: "getTodos \<lparr> user_id = Some ''alice'', body = map_of [], params_id = 0,
       req_query = \<lparr> q_status = None, q_limit = None, q_skip = None \<rparr> \<rparr> \<lparr> q_status = Some (JStr ''done''), q_limit = None, q_skip = None \<rparr> \<lparr> docs = [item_at 0 ''alice'' ''pending'' 10, item_at 1 ''alice'' ''pending'' 30,
                item_at 2 ''alice'' ''in_progress'' 20, item_at 3 ''alice'' ''pending'' 50,
                item_at 4 ''alice'' ''completed'' 40, item_at 5 ''bob'' ''pending'' 60],
       next_id = 6 \<rparr> =
     Inr [item_at 3 ''alice'' ''pending'' 50, item_at 4 ''alice'' ''completed'' 40,
          item_at 1 ''alice'' ''pending'' 30, item_at 2 ''alice'' ''in_progress'' 20,
          item_at 0 ''alice'' ''pending'' 10]"
    by code_simp
  from invalid_status_filter_ignored [OF st bad auth, of "\<lparr> docs = [item_at 0 ''alice'' ''pending'' 10, item_at 1 ''alice'' ''pending'' 30,
                item_at 2 ''alice'' ''in_progress'' 20, item_at 3 ''alice'' ''pending'' 50,
                item_at 4 ''alice'' ''completed'' 40, item_at 5 ''bob'' ''pending'' 60],
       next_id = 6 \<rparr>"]
  have e: "getTodos \<lparr> user_id = Some ''alice'', body = map_of [], params_id = 0,
       req_query = \<lparr> q_status = None, q_limit = None, q_skip = None \<rparr> \<rparr> \<lparr> q_status = Some (JStr ''done''), q_limit = None, q_skip = None \<rparr> \<lparr> docs = [item_at 0 ''alice'' ''pending'' 10, item_at 1 ''alice'' ''pending'' 30,
                item_at 2 ''alice'' ''in_progress'' 20, item_at 3 ''alice'' ''pending'' 50,
                item_at 4 ''alice'' ''completed'' 40, item_at 5 ''bob'' ''pending'' 60],
       next_id = 6 \<rparr> =
     getTodos \<lparr> user_id = Some ''alice'', body = map_of [], params_id = 0,
       req_query = \<lparr> q_status = None, q_limit = None, q_skip = None \<rparr> \<rparr> \<lparr> q_status = None, q_limit = None, q_skip = None \<rparr> \<lparr> docs = [item_at 0 ''alice'' ''pending'' 10, item_at 1 ''alice'' ''pending'' 30,
                item_at 2 ''alice'' ''in_progress'' 20, item_at 3 ''alice'' ''pending'' 50,
                item_at 4 ''alice'' ''completed'' 40, item_at 5 ''bob'' ''pending'' 60],
       next_id = 6 \<rparr>"
    by simp
  show ?thesis
    by (rule conjI [OF r e [symmetric]])
qed

end
